theory Spec2Isabelle
  imports Main
begin

section \<open>Rule catalog (rate-limit-config.ts)\<close>

text \<open>
  The enum \<open>UserRole\<close> comes from the generated database client; the source uses the
  three members below.
\<close>

datatype UserRole = USER | ADMIN | SECURITY_LEAD

record RateLimitRule =
  requests :: int
  window :: string
  windowMs :: int

record RateLimitConfig =
  config_identifier :: string
  rules :: "RateLimitRule list"
  blockDuration :: "string option"
  blockDurationMs :: "int option"

definition mkConfig :: "string \<Rightarrow> int \<Rightarrow> string \<Rightarrow> int \<Rightarrow> string \<Rightarrow> int \<Rightarrow> RateLimitConfig" where
  "mkConfig i n w wms b bms =
     \<lparr>config_identifier = i, rules = [\<lparr>requests = n, window = w, windowMs = wms\<rparr>],
      blockDuration = Some b, blockDurationMs = Some bms\<rparr>"

definition auth_login :: RateLimitConfig where
  "auth_login = mkConfig ''auth:login'' 5 ''15 m'' (15 * 60 * 1000) ''30 m'' (30 * 60 * 1000)"

definition auth_register :: RateLimitConfig where
  "auth_register = mkConfig ''auth:register'' 3 ''1 h'' (60 * 60 * 1000) ''1 h'' (60 * 60 * 1000)"

definition auth_password_reset :: RateLimitConfig where
  "auth_password_reset =
     mkConfig ''auth:password_reset'' 3 ''1 h'' (60 * 60 * 1000) ''1 h'' (60 * 60 * 1000)"

definition api_user :: RateLimitConfig where
  "api_user = mkConfig ''api:user'' 100 ''1 h'' (60 * 60 * 1000) ''15 m'' (15 * 60 * 1000)"

definition api_admin :: RateLimitConfig where
  "api_admin = mkConfig ''api:admin'' 1000 ''1 h'' (60 * 60 * 1000) ''5 m'' (5 * 60 * 1000)"

definition api_security_lead :: RateLimitConfig where
  "api_security_lead =
     mkConfig ''api:security_lead'' 2000 ''1 h'' (60 * 60 * 1000) ''5 m'' (5 * 60 * 1000)"

definition security_sensitive :: RateLimitConfig where
  "security_sensitive =
     mkConfig ''security:sensitive'' 10 ''1 h'' (60 * 60 * 1000) ''1 h'' (60 * 60 * 1000)"

definition public_config :: RateLimitConfig where
  "public_config = mkConfig ''public'' 20 ''1 m'' (60 * 1000) ''5 m'' (5 * 60 * 1000)"

text \<open>
  The tables of the module are object literals. Reading \<open>table[key]\<close> finds the
  table's own property when there is one; otherwise it finds what every object inherits
  from \<open>Object.prototype\<close>: one of its functions, or, under \<open>__proto__\<close>, the prototype
  itself; otherwise it is \<open>undefined\<close>. An inherited member is truthy and has none of
  the properties of a table entry.
\<close>

datatype 'a looked_up = Declared 'a | InheritedFunction | ObjectPrototype

definition objectPrototypeFunctions :: "string list" where
  "objectPrototypeFunctions =
     [''constructor'', ''hasOwnProperty'', ''isPrototypeOf'', ''propertyIsEnumerable'',
      ''toLocaleString'', ''toString'', ''valueOf'', ''__defineGetter__'',
      ''__defineSetter__'', ''__lookupGetter__'', ''__lookupSetter__'']"

definition property_read :: "(string \<rightharpoonup> 'a) \<Rightarrow> string \<Rightarrow> 'a looked_up option" where
  "property_read table key =
     (case table key of
        Some v \<Rightarrow> Some (Declared v)
      | None \<Rightarrow>
          if key = ''__proto__'' then Some ObjectPrototype
          else if key \<in> set objectPrototypeFunctions then Some InheritedFunction
          else None)"

text \<open>The own properties of \<open>RATE_LIMIT_CONFIGS\<close>.\<close>

definition RATE_LIMIT_CONFIGS :: "string \<rightharpoonup> RateLimitConfig" where
  "RATE_LIMIT_CONFIGS = map_of
     [(''auth_login'', auth_login),
      (''auth_register'', auth_register),
      (''auth_password_reset'', auth_password_reset),
      (''api_user'', api_user),
      (''api_admin'', api_admin),
      (''api_security_lead'', api_security_lead),
      (''security_sensitive'', security_sensitive),
      (''public'', public_config)]"

text \<open>
  \<open>RATE_LIMIT_CONFIGS[endpointType] || RATE_LIMIT_CONFIGS.public\<close>: whatever the read
  finds is truthy and is returned, a table entry or an inherited member.
\<close>

definition getRateLimitConfig :: "string \<Rightarrow> UserRole option \<Rightarrow> RateLimitConfig looked_up" where
  "getRateLimitConfig endpointType userRole =
     (if endpointType = ''api_user'' then
        (case userRole of
           Some SECURITY_LEAD \<Rightarrow> Declared api_security_lead
         | Some ADMIN \<Rightarrow> Declared api_admin
         | _ \<Rightarrow> Declared api_user)
      else (case property_read RATE_LIMIT_CONFIGS endpointType of
              Some v \<Rightarrow> v
            | None \<Rightarrow> Declared public_config))"

text \<open>The own properties of \<open>OPERATION_RATE_LIMITS\<close>.\<close>

definition OPERATION_RATE_LIMITS :: "string \<rightharpoonup> RateLimitConfig" where
  "OPERATION_RATE_LIMITS = map_of
     [(''profile_update'',
         mkConfig ''op:profile_update'' 5 ''1 h'' (60 * 60 * 1000) ''30 m'' (30 * 60 * 1000)),
      (''password_change'',
         mkConfig ''op:password_change'' 3 ''24 h'' (24 * 60 * 60 * 1000) ''1 h'' (60 * 60 * 1000)),
      (''email_change'',
         mkConfig ''op:email_change'' 2 ''24 h'' (24 * 60 * 60 * 1000) ''2 h'' (2 * 60 * 60 * 1000)),
      (''mfa_operations'',
         mkConfig ''op:mfa'' 5 ''1 h'' (60 * 60 * 1000) ''30 m'' (30 * 60 * 1000))]"

definition EMERGENCY_BYPASS_HEADER :: string where
  "EMERGENCY_BYPASS_HEADER = ''x-emergency-bypass''"

datatype RateLimitSeverity = LOW | MEDIUM | HIGH | CRITICAL

definition ENDPOINT_SEVERITY :: "string \<rightharpoonup> RateLimitSeverity" where
  "ENDPOINT_SEVERITY = map_of
     [(''auth_login'', CRITICAL),
      (''auth_register'', HIGH),
      (''auth_password_reset'', HIGH),
      (''security_sensitive'', CRITICAL),
      (''api_user'', MEDIUM),
      (''api_admin'', LOW),
      (''api_security_lead'', LOW),
      (''public'', MEDIUM)]"

fun severity_string :: "RateLimitSeverity \<Rightarrow> string" where
  "severity_string LOW = ''low''"
| "severity_string MEDIUM = ''medium''"
| "severity_string HIGH = ''high''"
| "severity_string CRITICAL = ''critical''"

section \<open>Requests, results and the shared stores (rate-limiter.ts)\<close>

record RateLimitContext =
  userId :: "string option"
  userRole :: "UserRole option"
  ip :: string
  userAgent :: string
  endpoint :: string
  operationType :: "string option"

text \<open>
  \<open>limit\<close> and \<open>remaining\<close> are JavaScript numbers that can be \<open>Infinity\<close>; every
  other number of the module is an integer (counts, milliseconds).
\<close>

datatype jsnum = Num int | Infinity

record RateLimitResult =
  success :: bool
  limit :: jsnum
  remaining :: jsnum
  reset :: int
  blocked :: "bool option"
  blockUntil :: "int option"
  retryAfter :: "int option"
  error :: "string option"

text \<open>
  The two shapes that \<open>checkBlockStatus\<close> returns: \<open>{ blocked: false }\<close> and
  \<open>{ blocked: true, blockUntil }\<close>.
\<close>

datatype BlockStatus = NotBlocked | Blocked int

text \<open>What \<open>limiter.limit(identifier)\<close> of the sliding-window library resolves to.\<close>

record LimitResponse =
  resp_success :: bool
  resp_limit :: int
  resp_remaining :: int
  resp_reset :: int

text \<open>
  A value thrown inside the module: an \<open>Error\<close> the module itself throws, or a failure
  of the runtime or of a library. \<open>message\<close> is what \<open>error.message\<close> reads; the texts of
  the library errors stand for whatever the library reports.
\<close>

datatype exn = JsError string | TypeError | RangeError | HeadersError | LimiterError | RedisError

fun message :: "exn \<Rightarrow> string" where
  "message (JsError m) = m"
| "message TypeError = ''Cannot read properties of undefined''"
| "message RangeError = ''Invalid time value''"
| "message HeadersError = ''headers unavailable''"
| "message LimiterError = ''limiter unavailable''"
| "message RedisError = ''redis unavailable''"

text \<open>
  The key-value store behind the Redis client: a value and the instant (ms) at which
  \<open>setex\<close> lets it expire.
\<close>

datatype redis_value = RNumber int | RString string

record redis_entry =
  rvalue :: redis_value
  expireAt :: int

text \<open>
  Rows of the two tables the module touches. A row of \<open>rateLimitEntry\<close> has a generated
  primary key \<open>entry_id\<close>; generated keys are never the literal \<open>"new"\<close>.
\<close>

record RateLimitEntry =
  entry_id :: nat
  entry_userId :: "string option"
  entry_ip :: string
  entry_endpoint :: string
  attempts :: int
  windowStart :: int
  expiresAt :: int
  updatedAt :: int

datatype SecurityAction =
  LOGIN_SUCCESS | LOGIN_FAILED | LOGOUT | PROFILE_UPDATE | ACCOUNT_LOCKED | ACCOUNT_UNLOCKED
  | RATE_LIMIT_EXCEEDED | SUSPICIOUS_ACTIVITY

text \<open>
  The \<open>details\<close> object of an event: the properties that \<open>JSON.stringify\<close> keeps, in
  order (a property that is \<open>undefined\<close> or a function is dropped). \<open>JIso t\<close> is the
  ISO-8601 text of the instant \<open>t\<close>.
\<close>

datatype json = JString string | JNumber int | JIso int | JObject "(string \<times> json) list"

text \<open>
  \<open>new Date(t).toISOString()\<close>: a \<open>Date\<close> holds the instants up to 8.64e15 ms on either
  side of the epoch, and \<open>toISOString\<close> of any other throws a \<open>RangeError\<close>.
\<close>

definition toISOString :: "int \<Rightarrow> exn + json" where
  "toISOString t =
     (if - 8640000000000000 \<le> t \<and> t \<le> 8640000000000000 then Inr (JIso t)
      else Inl RangeError)"

text \<open>
  What the column \<open>details\<close> of the security log holds. Every writer of the repository
  stores \<open>JSON.stringify(details)\<close>, a JSON string whose text encodes the object
  (\<open>JsonText\<close>, given by the object encoded); \<open>JsonObject\<close> is a row that holds a JSON
  object itself.
\<close>

datatype stored_json = JsonText "(string \<times> json) list" | JsonObject "(string \<times> json) list"

record SecurityEventData =
  ev_userId :: "string option"
  ev_action :: SecurityAction
  ev_details :: "(string \<times> json) list option"
  ev_ip :: "string option"
  ev_userAgent :: "string option"
  ev_success :: bool

record SecurityLog =
  log_userId :: "string option"
  log_action :: SecurityAction
  log_details :: "stored_json option"
  log_ip :: string
  log_userAgent :: string
  log_success :: bool
  createdAt :: int

text \<open>
  The mutable state the module shares with every other request: the Redis client
  (\<open>None\<close> when the module-level \<open>redis\<close> is \<open>null\<close>) with the remote keys, the cache
  \<open>rateLimiters\<close> (a limiter is determined by its prefix key and its primary rule), and the
  two database tables in storage order.
\<close>

record Store =
  redis :: "(string \<rightharpoonup> redis_entry) option"
  rateLimiters :: "string \<rightharpoonup> RateLimitRule"
  rateLimitEntry :: "RateLimitEntry list"
  securityLog :: "SecurityLog list"

text \<open>
  What one call of \<open>checkRateLimit\<close> reads from outside: the clock (one request is
  decided at one instant \<open>now\<close>), the request headers (\<open>None\<close> when \<open>headers()\<close> throws),
  the process configuration (the bypass token of the environment, \<open>None\<close> when unset, and
  the whitelist, which ships empty and is filled in by operators), the answer of the
  external sliding-window limiter (\<open>None\<close> when it throws), and which of the remote
  operations throw during this call.
\<close>

record Env =
  now :: int
  request_headers :: "(string \<rightharpoonup> string) option"
  EMERGENCY_BYPASS_TOKEN :: "string option"
  RATE_LIMIT_WHITELIST :: "string list"
  limiter_limit :: "string \<Rightarrow> RateLimitRule \<Rightarrow> string \<Rightarrow> LimitResponse option"
  redis_get_throws :: bool
  redis_setex_throws :: bool
  findFirst_throws :: bool
  upsert_throws :: bool
  count_throws :: bool
  securityLog_create_throws :: bool

subsection \<open>JavaScript helpers\<close>

text \<open>\<open>Math.ceil(x / d)\<close> on integers, for \<open>d > 0\<close>.\<close>

definition ceil_div :: "int \<Rightarrow> int \<Rightarrow> int" where
  "ceil_div x d = - ((- x) div d)"

text \<open>Truthiness of an optional string and of an optional number.\<close>

definition truthy_str :: "string option \<Rightarrow> bool" where
  "truthy_str s = (case s of None \<Rightarrow> False | Some v \<Rightarrow> v \<noteq> [])"

definition truthy_num :: "int option \<Rightarrow> bool" where
  "truthy_num n = (case n of None \<Rightarrow> False | Some v \<Rightarrow> v \<noteq> 0)"

text \<open>\<open>a || b\<close> on optional strings.\<close>

definition or_else :: "string option \<Rightarrow> string option \<Rightarrow> string option" where
  "or_else a b = (if truthy_str a then a else b)"

text \<open>
  \<open>header === token\<close>, where an absent header is \<open>null\<close> and an unset token is
  \<open>undefined\<close>: the two are equal only when both are strings and the same.
\<close>

definition strict_eq :: "string option \<Rightarrow> string option \<Rightarrow> bool" where
  "strict_eq h t = (case (h, t) of (Some a, Some b) \<Rightarrow> a = b | _ \<Rightarrow> False)"

section \<open>The event sink (security.ts)\<close>

text \<open>
  \<open>logSecurityEvent\<close> wraps its whole body in \<open>try/catch\<close> and only logs to the console
  in the handler, so it returns normally whatever happens: when \<open>headers()\<close> or the insert
  throws, no row is written.
\<close>

definition logSecurityEvent :: "Env \<Rightarrow> SecurityEventData \<Rightarrow> Store \<Rightarrow> Store" where
  "logSecurityEvent env ev st =
     (let need_headers = (\<not> truthy_str (ev_ip ev) \<or> \<not> truthy_str (ev_userAgent ev)) in
      if need_headers \<and> request_headers env = None then st
      else
        (let headersList = (case request_headers env of Some h \<Rightarrow> h | None \<Rightarrow> Map.empty);
             ip' = (if need_headers
                    then or_else (ev_ip ev)
                           (or_else (headersList ''x-forwarded-for'')
                              (or_else (headersList ''x-real-ip'') (Some ''unknown'')))
                    else ev_ip ev);
             userAgent' = (if need_headers
                           then or_else (ev_userAgent ev)
                                  (or_else (headersList ''user-agent'') (Some ''unknown''))
                           else ev_userAgent ev)
         in if securityLog_create_throws env then st
            else st\<lparr>securityLog := securityLog st @
                   [\<lparr>log_userId = ev_userId ev,
                     log_action = ev_action ev,
                     log_details = map_option JsonText (ev_details ev),
                     log_ip = (case ip' of Some v \<Rightarrow> v | None \<Rightarrow> []),
                     log_userAgent = (case userAgent' of Some v \<Rightarrow> v | None \<Rightarrow> []),
                     log_success = ev_success ev,
                     createdAt = now env\<rparr>]\<rparr>))"

section \<open>The decision engine (rate-limiter.ts)\<close>

definition isWhitelisted :: "Env \<Rightarrow> string \<Rightarrow> bool" where
  "isWhitelisted env ip' = (ip' \<in> set (RATE_LIMIT_WHITELIST env))"

definition createRateLimitIdentifier :: "RateLimitContext \<Rightarrow> string" where
  "createRateLimitIdentifier context =
     (case userId context of
        Some u \<Rightarrow> if u \<noteq> [] then ''user:'' @ u @ '':'' @ ip context else ''ip:'' @ ip context
      | None \<Rightarrow> ''ip:'' @ ip context)"

definition blockKey :: "RateLimitContext \<Rightarrow> string" where
  "blockKey context = ''block:'' @ createRateLimitIdentifier context"

text \<open>
  \<open>getRateLimiter\<close>: \<open>null\<close> without a Redis client; the cached limiter of
  \<open>config.identifier\<close> when there is one; otherwise a new limiter over the first rule,
  which is then cached. Reading \<open>primaryRule.requests\<close> of an empty \<open>rules\<close> throws.
\<close>

definition getRateLimiter ::
  "RateLimitConfig \<Rightarrow> Store \<Rightarrow> (exn + (string \<times> RateLimitRule) option) \<times> Store" where
  "getRateLimiter config st =
     (case redis st of
        None \<Rightarrow> (Inr None, st)
      | Some kv \<Rightarrow>
          (let key = config_identifier config in
           case rateLimiters st key of
             Some rule \<Rightarrow> (Inr (Some (key, rule)), st)
           | None \<Rightarrow>
               (case rules config of
                  [] \<Rightarrow> (Inl TypeError, st)
                | primaryRule # rest \<Rightarrow>
                    (Inr (Some (key, primaryRule)),
                     st\<lparr>rateLimiters := (rateLimiters st)(key \<mapsto> primaryRule)\<rparr>))))"

text \<open>
  The \<open>details\<close> literal of \<open>logRateLimitViolation\<close>. It is evaluated before
  \<open>logSecurityEvent\<close> is entered, so what it throws is thrown by
  \<open>logRateLimitViolation\<close>: \<open>toISOString\<close> of a \<open>blockUntil\<close> that no \<open>Date\<close> holds.
  \<open>ENDPOINT_SEVERITY[config.identifier] || MEDIUM\<close> is a property read: an inherited
  function is dropped by \<open>JSON.stringify\<close>, the prototype is written as \<open>{}\<close>.
\<close>

definition violationDetails ::
  "RateLimitContext \<Rightarrow> RateLimitConfig \<Rightarrow> string \<Rightarrow> int option \<Rightarrow> exn + (string \<times> json) list" where
  "violationDetails context config violationType blockUntil' =
     (case (case blockUntil' of
              None \<Rightarrow> Inr []
            | Some b \<Rightarrow>
                if b = 0 then Inr []
                else (case toISOString b of
                        Inl e \<Rightarrow> Inl e
                      | Inr isoText \<Rightarrow> Inr [(''blockUntil'', isoText)])) of
        Inl e \<Rightarrow> Inl e
      | Inr blockUntilProperty \<Rightarrow>
          Inr ([(''endpoint'', JString (endpoint context)),
                (''config'', JString (config_identifier config)),
                (''violationType'', JString violationType)]
               @ (case property_read ENDPOINT_SEVERITY (config_identifier config) of
                    Some (Declared severity) \<Rightarrow> [(''severity'', JString (severity_string severity))]
                  | Some InheritedFunction \<Rightarrow> []
                  | Some ObjectPrototype \<Rightarrow> [(''severity'', JObject [])]
                  | None \<Rightarrow> [(''severity'', JString (severity_string MEDIUM))])
               @ blockUntilProperty
               @ [(''userAgent'', JString (userAgent context))]))"

definition logRateLimitViolation ::
  "Env \<Rightarrow> RateLimitContext \<Rightarrow> RateLimitConfig \<Rightarrow> string \<Rightarrow> int option \<Rightarrow> Store
     \<Rightarrow> exn + Store" where
  "logRateLimitViolation env context config violationType blockUntil' st =
     (case violationDetails context config violationType blockUntil' of
        Inl e \<Rightarrow> Inl e
      | Inr details \<Rightarrow>
          Inr (logSecurityEvent env
                 \<lparr>ev_userId = userId context,
                  ev_action = RATE_LIMIT_EXCEEDED,
                  ev_details = Some details,
                  ev_ip = Some (ip context),
                  ev_userAgent = Some (userAgent context),
                  ev_success = False\<rparr> st))"

subsection \<open>Block ledger\<close>

text \<open>\<open>redis.get(key)\<close>: the stored value unless the key has expired.\<close>

definition redis_get :: "Env \<Rightarrow> (string \<rightharpoonup> redis_entry) \<Rightarrow> string \<Rightarrow> exn + redis_value option" where
  "redis_get env kv key =
     (if redis_get_throws env then Inl RedisError
      else (case kv key of
              Some e \<Rightarrow> if now env < expireAt e then Inr (Some (rvalue e)) else Inr None
            | None \<Rightarrow> Inr None))"

text \<open>
  The fallback query \<open>securityLog.count\<close>: an \<open>OR\<close> whose only condition is on an
  undefined \<open>userId\<close> matches no row, and the JSON path \<open>endpoint\<close> is found in a row
  that holds a JSON object, never in one that holds JSON text.
\<close>

definition recentViolations :: "RateLimitContext \<Rightarrow> int \<Rightarrow> SecurityLog list \<Rightarrow> nat" where
  "recentViolations context since tbl =
     length (filter (\<lambda>r.
        (case userId context of None \<Rightarrow> False | Some u \<Rightarrow> log_userId r = Some u)
        \<and> log_action r = RATE_LIMIT_EXCEEDED
        \<and> since \<le> createdAt r
        \<and> (case log_details r of
             Some (JsonObject d) \<Rightarrow> map_of d ''endpoint'' = Some (JString (endpoint context))
           | _ \<Rightarrow> False)) tbl)"

definition checkBlockStatus ::
  "Env \<Rightarrow> RateLimitContext \<Rightarrow> RateLimitConfig \<Rightarrow> Store \<Rightarrow> BlockStatus" where
  "checkBlockStatus env context config st =
     (case blockDurationMs config of
        None \<Rightarrow> NotBlocked
      | Some d \<Rightarrow>
          if d = 0 then NotBlocked
          else
            (case redis st of
               Some kv \<Rightarrow>
                 (case redis_get env kv (blockKey context) of
                    Inl e \<Rightarrow> NotBlocked
                  | Inr (Some (RNumber blockUntil')) \<Rightarrow>
                      if blockUntil' \<noteq> 0 \<and> now env < blockUntil' then Blocked blockUntil'
                      else NotBlocked
                  | Inr other \<Rightarrow> NotBlocked)
             | None \<Rightarrow>
                 if count_throws env then NotBlocked
                 else if 3 \<le> recentViolations context (now env - d) (securityLog st)
                      then Blocked (now env + d)
                      else NotBlocked))"

text \<open>
  \<open>handleRateLimitBlock\<close>: everything after the guard is inside one \<open>try\<close>. The
  \<open>setex\<close> comes first; the \<open>details\<close> literal of the event, with its \<open>toISOString\<close>, is
  evaluated after it, so a failure there leaves the entry written and no event logged.
\<close>

definition handleRateLimitBlock ::
  "Env \<Rightarrow> RateLimitContext \<Rightarrow> RateLimitConfig \<Rightarrow> Store \<Rightarrow> Store" where
  "handleRateLimitBlock env context config st =
     (case blockDurationMs config of
        None \<Rightarrow> st
      | Some d \<Rightarrow>
          if d = 0 then st
          else
            (let blockUntil' = now env + d in
             if redis st \<noteq> None \<and> redis_setex_throws env then st
             else
               (let st1 = (case redis st of
                             Some kv \<Rightarrow>
                               st\<lparr>redis := Some (kv(blockKey context \<mapsto>
                                     \<lparr>rvalue = RNumber blockUntil',
                                      expireAt = now env + 1000 * ceil_div d 1000\<rparr>))\<rparr>
                           | None \<Rightarrow> st)
                in case toISOString blockUntil' of
                     Inl e \<Rightarrow> st1
                   | Inr isoText \<Rightarrow>
                       logSecurityEvent env
                         \<lparr>ev_userId = userId context,
                          ev_action = RATE_LIMIT_EXCEEDED,
                          ev_details = Some
                            ([(''endpoint'', JString (endpoint context)),
                              (''action'', JString ''blocked'')]
                             @ (case blockDuration config of
                                  Some b \<Rightarrow> [(''blockDuration'', JString b)] | None \<Rightarrow> [])
                             @ [(''blockUntil'', isoText)]),
                          ev_ip = Some (ip context),
                          ev_userAgent = Some (userAgent context),
                          ev_success = False\<rparr> st1)))"

subsection \<open>Database fallback\<close>

text \<open>
  The \<open>where\<close> clause of \<open>rateLimitEntry.findFirst\<close>: a condition on an undefined
  \<open>userId\<close> is dropped from the \<open>OR\<close>; \<open>new Date()\<close> is the instant of the call.
\<close>

definition live_entry :: "RateLimitContext \<Rightarrow> int \<Rightarrow> RateLimitEntry \<Rightarrow> bool" where
  "live_entry context t r =
     (((case userId context of None \<Rightarrow> False | Some u \<Rightarrow> entry_userId r = Some u)
        \<or> entry_ip r = ip context)
      \<and> entry_endpoint r = endpoint context
      \<and> t < expiresAt r)"

definition findFirst :: "RateLimitContext \<Rightarrow> int \<Rightarrow> RateLimitEntry list \<Rightarrow> RateLimitEntry option" where
  "findFirst context t tbl = List.find (live_entry context t) tbl"

definition fresh_id :: "RateLimitEntry list \<Rightarrow> nat" where
  "fresh_id tbl = Suc (fold max (map entry_id tbl) 0)"

text \<open>
  \<open>rateLimitEntry.upsert\<close> with \<open>where: { id: existing?.id || "new" }\<close>: the row with that
  key gets \<open>attempts\<close> incremented in the database; when no row has the key (always so
  for \<open>"new"\<close>) a row is created.
\<close>

definition upsert ::
  "Env \<Rightarrow> RateLimitContext \<Rightarrow> RateLimitRule \<Rightarrow> RateLimitEntry option \<Rightarrow> RateLimitEntry list
     \<Rightarrow> RateLimitEntry list" where
  "upsert env context rule existing tbl =
     (let created =
            \<lparr>entry_id = fresh_id tbl,
             entry_userId = userId context,
             entry_ip = ip context,
             entry_endpoint = endpoint context,
             attempts = 1,
             windowStart = now env - windowMs rule,
             expiresAt = now env + windowMs rule,
             updatedAt = now env\<rparr>
      in case existing of
           None \<Rightarrow> tbl @ [created]
         | Some e \<Rightarrow>
             if entry_id e \<in> set (map entry_id tbl)
             then map (\<lambda>r. if entry_id r = entry_id e
                            then r\<lparr>attempts := attempts r + 1, updatedAt := now env\<rparr>
                            else r) tbl
             else tbl @ [created])"

text \<open>The handler of the \<open>try\<close> in \<open>checkRateLimitDatabase\<close>.\<close>

definition databaseFailOpen :: "Env \<Rightarrow> RateLimitRule \<Rightarrow> RateLimitResult" where
  "databaseFailOpen env rule =
     \<lparr>success = True,
      limit = Num (requests rule),
      remaining = Num (requests rule - 1),
      reset = now env + windowMs rule,
      blocked = None, blockUntil = None, retryAfter = None,
      error = Some ''Database rate limiting error''\<rparr>"

text \<open>
  The second half of the \<open>try\<close> in \<open>checkRateLimitDatabase\<close>: the \<open>upsert\<close> and the
  success result, whose \<open>remaining\<close> is computed from the row that was read.
\<close>

definition upsertAndAllow ::
  "Env \<Rightarrow> RateLimitContext \<Rightarrow> RateLimitRule \<Rightarrow> RateLimitEntry option \<Rightarrow> Store
     \<Rightarrow> RateLimitResult \<times> Store" where
  "upsertAndAllow env context rule existing st =
     (if upsert_throws env then (databaseFailOpen env rule, st)
      else
        (let currentAttempts = (case existing of Some e \<Rightarrow> attempts e | None \<Rightarrow> 0) + 1 in
         (\<lparr>success = True,
           limit = Num (requests rule),
           remaining = Num (max 0 (requests rule - currentAttempts)),
           reset = now env + windowMs rule,
           blocked = None, blockUntil = None, retryAfter = None,
           error = None\<rparr>,
          st\<lparr>rateLimitEntry := upsert env context rule existing (rateLimitEntry st)\<rparr>)))"

text \<open>
  The body of \<open>checkRateLimitDatabase\<close> from the point where \<open>findFirst\<close> has resolved
  to \<open>existing\<close>: the threshold test on the row that was read, then the \<open>upsert\<close>.
\<close>

definition afterFindFirst ::
  "Env \<Rightarrow> RateLimitContext \<Rightarrow> RateLimitConfig \<Rightarrow> RateLimitRule \<Rightarrow> RateLimitEntry option
     \<Rightarrow> Store \<Rightarrow> RateLimitResult \<times> Store" where
  "afterFindFirst env context config rule existing st =
     (case existing of
        None \<Rightarrow> upsertAndAllow env context rule existing st
      | Some e \<Rightarrow>
          if requests rule \<le> attempts e then
            (case logRateLimitViolation env context config ''exceeded_database'' None st of
               Inl err \<Rightarrow> (databaseFailOpen env rule, st)
             | Inr st' \<Rightarrow>
                 (\<lparr>success = False,
                   limit = Num (requests rule),
                   remaining = Num 0,
                   reset = expiresAt e,
                   blocked = None, blockUntil = None,
                   retryAfter = Some (ceil_div (expiresAt e - now env) 1000),
                   error = None\<rparr>, st'))
          else upsertAndAllow env context rule existing st)"

text \<open>
  \<open>rule.windowMs\<close> is read before the \<open>try\<close>, so an empty \<open>rules\<close> makes the function
  throw; every later failure is caught and answered with the fail-open result.
\<close>

definition checkRateLimitDatabase ::
  "Env \<Rightarrow> RateLimitContext \<Rightarrow> RateLimitConfig \<Rightarrow> Store \<Rightarrow> (exn + RateLimitResult) \<times> Store" where
  "checkRateLimitDatabase env context config st =
     (case rules config of
        [] \<Rightarrow> (Inl TypeError, st)
      | rule # rest \<Rightarrow>
          if findFirst_throws env then (Inr (databaseFailOpen env rule), st)
          else
            (let existing = findFirst context (now env) (rateLimitEntry st);
                 (result, st') = afterFindFirst env context config rule existing st
             in (Inr result, st')))"

subsection \<open>\<open>checkRateLimit\<close>\<close>

definition unlimited :: "Env \<Rightarrow> RateLimitResult" where
  "unlimited env =
     \<lparr>success = True, limit = Infinity, remaining = Infinity, reset = now env + 60000,
      blocked = None, blockUntil = None, retryAfter = None, error = None\<rparr>"

text \<open>
  The configuration that is enforced:
  \<open>customConfig || OPERATION_RATE_LIMITS[configKey] || getRateLimitConfig(configKey, role)\<close>.
\<close>

definition enforcedConfig ::
  "RateLimitConfig option \<Rightarrow> string \<Rightarrow> UserRole option \<Rightarrow> RateLimitConfig looked_up" where
  "enforcedConfig customConfig configKey role =
     (case customConfig of
        Some c \<Rightarrow> Declared c
      | None \<Rightarrow>
          (case property_read OPERATION_RATE_LIMITS configKey of
             Some v \<Rightarrow> v
           | None \<Rightarrow> getRateLimitConfig configKey role))"

text \<open>
  The counter check: everything \<open>checkRateLimit\<close> does after the block check let the
  request through (the database fallback without a Redis client, the sliding-window limiter
  otherwise).
\<close>

definition counterCheck ::
  "Env \<Rightarrow> RateLimitContext \<Rightarrow> RateLimitConfig \<Rightarrow> Store \<Rightarrow> (exn + RateLimitResult) \<times> Store" where
  "counterCheck env context config st =
     (case redis st of
        None \<Rightarrow> checkRateLimitDatabase env context config st
      | Some kv \<Rightarrow>
          (case getRateLimiter config st of
             (Inl e, st1) \<Rightarrow> (Inl e, st1)
           | (Inr None, st1) \<Rightarrow> (Inl (JsError ''Failed to create rate limiter''), st1)
           | (Inr (Some (key, rule)), st1) \<Rightarrow>
               (case limiter_limit env key rule (createRateLimitIdentifier context) of
                  None \<Rightarrow> (Inl LimiterError, st1)
                | Some result \<Rightarrow>
                    if \<not> resp_success result then
                      (case logRateLimitViolation env context config ''exceeded'' None st1 of
                         Inl e \<Rightarrow> (Inl e, st1)
                       | Inr st2 \<Rightarrow>
                           (let st3 = handleRateLimitBlock env context config st2
                            in (Inr \<lparr>success = False,
                                     limit = Num (resp_limit result),
                                     remaining = Num (resp_remaining result),
                                     reset = resp_reset result,
                                     blocked = None, blockUntil = None,
                                     retryAfter =
                                       Some (ceil_div (resp_reset result - now env) 1000),
                                     error = None\<rparr>, st3)))
                    else
                      (Inr \<lparr>success = True,
                            limit = Num (resp_limit result),
                            remaining = Num (resp_remaining result),
                            reset = resp_reset result,
                            blocked = None, blockUntil = None, retryAfter = None,
                            error = None\<rparr>, st1))))"

text \<open>
  The body of the outer \<open>try\<close> of \<open>checkRateLimit\<close>. When the selected value is an
  inherited member and no configuration, each property the module reads of it is
  \<open>undefined\<close>: \<open>checkBlockStatus\<close> sees no \<open>blockDurationMs\<close> and answers not blocked
  without touching a store, and the counter check throws on \<open>config.rules[0]\<close>, in
  \<open>checkRateLimitDatabase\<close> before its \<open>try\<close> and in \<open>getRateLimiter\<close> (no limiter is
  ever cached under the key \<open>undefined\<close>).
\<close>

definition checkRateLimit_try ::
  "Env \<Rightarrow> RateLimitContext \<Rightarrow> string \<Rightarrow> RateLimitConfig option \<Rightarrow> Store
     \<Rightarrow> (exn + RateLimitResult) \<times> Store" where
  "checkRateLimit_try env context configKey customConfig st =
     (case request_headers env of
        None \<Rightarrow> (Inl HeadersError, st)
      | Some headersList \<Rightarrow>
          if strict_eq (headersList EMERGENCY_BYPASS_HEADER) (EMERGENCY_BYPASS_TOKEN env)
          then (Inr (unlimited env), st)
          else if isWhitelisted env (ip context) then (Inr (unlimited env), st)
          else
            (case enforcedConfig customConfig configKey (userRole context) of
               Declared config \<Rightarrow>
                 (case checkBlockStatus env context config st of
                    Blocked blockUntil' \<Rightarrow>
                      (case logRateLimitViolation env context config ''blocked''
                              (Some blockUntil') st of
                         Inl e \<Rightarrow> (Inl e, st)
                       | Inr st1 \<Rightarrow>
                           (case rules config of
                              [] \<Rightarrow> (Inl TypeError, st1)
                            | rule # rest \<Rightarrow>
                                (Inr \<lparr>success = False,
                                      limit = Num (requests rule),
                                      remaining = Num 0,
                                      reset = blockUntil',
                                      blocked = Some True,
                                      blockUntil = Some blockUntil',
                                      retryAfter =
                                        Some (ceil_div (blockUntil' - now env) 1000),
                                      error = None\<rparr>, st1)))
                  | NotBlocked \<Rightarrow> counterCheck env context config st)
             | inherited \<Rightarrow> (Inl TypeError, st)))"

text \<open>The handler of the outer \<open>try\<close>: log the error, then fail open.\<close>

definition failOpen :: "Env \<Rightarrow> RateLimitResult" where
  "failOpen env =
     \<lparr>success = True, limit = Num 1000, remaining = Num 999, reset = now env + 60000,
      blocked = None, blockUntil = None, retryAfter = None,
      error = Some ''Rate limiting temporarily unavailable''\<rparr>"

definition checkRateLimit ::
  "Env \<Rightarrow> RateLimitContext \<Rightarrow> string \<Rightarrow> RateLimitConfig option \<Rightarrow> Store
     \<Rightarrow> RateLimitResult \<times> Store" where
  "checkRateLimit env context configKey customConfig st =
     (case checkRateLimit_try env context configKey customConfig st of
        (Inr result, st') \<Rightarrow> (result, st')
      | (Inl e, st') \<Rightarrow>
          (failOpen env,
           logSecurityEvent env
             \<lparr>ev_userId = userId context,
              ev_action = RATE_LIMIT_EXCEEDED,
              ev_details = Some
                [(''endpoint'', JString (endpoint context)),
                 (''error'', JString (message e)),
                 (''ip'', JString (ip context))],
              ev_ip = Some (ip context),
              ev_userAgent = Some (userAgent context),
              ev_success = False\<rparr> st'))"

section \<open>Runs of several requests\<close>

text \<open>
  Requests handled one after the other on the database fallback, each at its own instant
  and on the store the previous one left.
\<close>

fun runDatabase ::
  "Env list \<Rightarrow> RateLimitContext \<Rightarrow> RateLimitConfig \<Rightarrow> Store \<Rightarrow> (exn + RateLimitResult) list" where
  "runDatabase [] context config st = []"
| "runDatabase (env # envs) context config st =
     (case checkRateLimitDatabase env context config st of
        (r, st') \<Rightarrow> r # runDatabase envs context config st')"

text \<open>
  Two requests in flight at once on the database fallback. Each \<open>await\<close> is a point
  where the other request can run, so both can finish \<open>findFirst\<close> before either reaches
  its \<open>upsert\<close>: both decide on the table as it was before the other's write.
\<close>

definition racingRequests ::
  "Env \<Rightarrow> Env \<Rightarrow> RateLimitContext \<Rightarrow> RateLimitConfig \<Rightarrow> RateLimitRule \<Rightarrow> Store
     \<Rightarrow> RateLimitResult \<times> RateLimitResult \<times> Store" where
  "racingRequests env1 env2 context config rule st =
     (let existing1 = findFirst context (now env1) (rateLimitEntry st);
          existing2 = findFirst context (now env2) (rateLimitEntry st);
          (result1, st1) = afterFindFirst env1 context config rule existing1 st;
          (result2, st2) = afterFindFirst env2 context config rule existing2 st1
      in (result1, result2, st2))"

text \<open>
  Calls of \<open>checkRateLimit\<close> one after the other, each at its own instant and on the
  store the previous call left; the results and the final store.
\<close>

fun runCheck ::
  "Env list \<Rightarrow> RateLimitContext \<Rightarrow> string \<Rightarrow> RateLimitConfig option \<Rightarrow> Store
     \<Rightarrow> RateLimitResult list \<times> Store" where
  "runCheck [] context configKey customConfig st = ([], st)"
| "runCheck (env # envs) context configKey customConfig st =
     (case checkRateLimit env context configKey customConfig st of
        (result, st') \<Rightarrow>
          (case runCheck envs context configKey customConfig st' of
             (results, st'') \<Rightarrow> (result # results, st'')))"

section \<open>Example requests\<close>

text \<open>
  Concrete requests, environments and stores on which the properties below are
  evaluated: an anonymous client, an environment in which every remote operation works
  and no bypass applies, an empty store without a Redis client, and a store whose block
  ledger holds an active block for the client.
\<close>

definition example_context :: RateLimitContext where
  "example_context =
     \<lparr>userId = None, userRole = None, ip = ''203.0.113.5'', userAgent = ''curl'',
      endpoint = ''POST:/api/auth/login'', operationType = None\<rparr>"

definition example_env :: Env where
  "example_env =
     \<lparr>now = 1000000,
      request_headers = Some Map.empty,
      EMERGENCY_BYPASS_TOKEN = Some ''secret'',
      RATE_LIMIT_WHITELIST = [],
      limiter_limit = (\<lambda>key rule i. None),
      redis_get_throws = False,
      redis_setex_throws = False,
      findFirst_throws = False,
      upsert_throws = False,
      count_throws = False,
      securityLog_create_throws = False\<rparr>"

definition example_store :: Store where
  "example_store =
     \<lparr>redis = None, rateLimiters = Map.empty, rateLimitEntry = [], securityLog = []\<rparr>"

definition blocked_store :: Store where
  "blocked_store =
     example_store\<lparr>redis := Some [blockKey example_context \<mapsto>
        \<lparr>rvalue = RNumber 2800000, expireAt = 2800000\<rparr>]\<rparr>"

text \<open>The same environment for a request that carries the bypass token.\<close>

definition bypass_env :: Env where
  "bypass_env = example_env\<lparr>request_headers := Some [''x-emergency-bypass'' \<mapsto> ''secret'']\<rparr>"

text \<open>
  A total storage outage: every remote operation throws (the limiter of \<open>example_env\<close>
  throws already). \<open>redis_store\<close> is the empty store with a Redis client.
\<close>

definition outage_env :: Env where
  "outage_env =
     example_env\<lparr>redis_get_throws := True, redis_setex_throws := True,
                 findFirst_throws := True, upsert_throws := True, count_throws := True,
                 securityLog_create_throws := True\<rparr>"

definition redis_store :: Store where
  "redis_store = example_store\<lparr>redis := Some Map.empty\<rparr>"

text \<open>An environment in which the limiter refuses the request.\<close>

definition violation_env :: Env where
  "violation_env =
     example_env\<lparr>limiter_limit := (\<lambda>key rule i.
        Some \<lparr>resp_success = False, resp_limit = 5, resp_remaining = 0,
              resp_reset = 1900000\<rparr>)\<rparr>"

text \<open>
  A configuration with a burst rule and a sustained rule, and a store without a Redis
  client in which the client has three attempts on record in a live window.
\<close>

definition two_rule_config :: RateLimitConfig where
  "two_rule_config =
     \<lparr>config_identifier = ''custom:burst_and_sustained'',
      rules = [\<lparr>requests = 5, window = ''1 m'', windowMs = 60000\<rparr>,
               \<lparr>requests = 2, window = ''1 h'', windowMs = 3600000\<rparr>],
      blockDuration = None, blockDurationMs = None\<rparr>"

definition counted_store :: Store where
  "counted_store =
     example_store\<lparr>rateLimitEntry :=
       [\<lparr>entry_id = 1, entry_userId = None, entry_ip = ''203.0.113.5'',
         entry_endpoint = ''POST:/api/auth/login'', attempts = 3,
         windowStart = 990000, expiresAt = 1050000, updatedAt = 999000\<rparr>]\<rparr>"


definition one_per_minute :: RateLimitConfig where
  "one_per_minute =
     \<lparr>config_identifier = ''custom:one_per_minute'',
      rules = [\<lparr>requests = 1, window = ''1 m'', windowMs = 60000\<rparr>],
      blockDuration = None, blockDurationMs = None\<rparr>"

text \<open>
  An environment in which the limiter admits the request, and a store whose ledger holds
  a block until an instant beyond the range of \<open>Date\<close> (as a block duration near the
  largest safe integer gives).
\<close>

definition allowing_env :: Env where
  "allowing_env =
     example_env\<lparr>limiter_limit := (\<lambda>key rule i.
        Some \<lparr>resp_success = True, resp_limit = 5, resp_remaining = 4,
              resp_reset = 1900000\<rparr>)\<rparr>"

definition far_blocked_store :: Store where
  "far_blocked_store =
     example_store\<lparr>redis := Some [blockKey example_context \<mapsto>
        \<lparr>rvalue = RNumber 9000000000000000, expireAt = 9000000000000000\<rparr>]\<rparr>"

section \<open>Properties\<close>

subsection \<open>Event emission changes only the security log\<close>

lemma logSecurityEvent_keeps:
  "redis (logSecurityEvent env ev st) = redis st"
  "rateLimiters (logSecurityEvent env ev st) = rateLimiters st"
  "rateLimitEntry (logSecurityEvent env ev st) = rateLimitEntry st"
  by (simp_all add: logSecurityEvent_def Let_def)

lemma violationDetails_None:
  "\<exists>details. violationDetails context config violationType None = Inr details"
  by (simp add: violationDetails_def)

lemma violationDetails_date:
  "- 8640000000000000 \<le> b \<Longrightarrow> b \<le> 8640000000000000 \<Longrightarrow>
   \<exists>details. violationDetails context config violationType (Some b) = Inr details"
  by (simp add: violationDetails_def toISOString_def)

lemma violationDetails_beyond_date:
  "8640000000000000 < b \<Longrightarrow>
   violationDetails context config violationType (Some b) = Inl RangeError"
  by (simp add: violationDetails_def toISOString_def)

lemma logRateLimitViolation_None:
  "\<exists>st'. logRateLimitViolation env context config violationType None st = Inr st'"
  using violationDetails_None [of "context" config violationType]
  by (auto simp: logRateLimitViolation_def)

lemma logRateLimitViolation_date:
  "- 8640000000000000 \<le> b \<Longrightarrow> b \<le> 8640000000000000 \<Longrightarrow>
   \<exists>st'. logRateLimitViolation env context config violationType (Some b) st = Inr st'"
  using violationDetails_date [of b "context" config violationType]
  by (auto simp: logRateLimitViolation_def)

lemma logRateLimitViolation_keeps:
  assumes "logRateLimitViolation env context config violationType b st = Inr st'"
  shows "redis st' = redis st" "rateLimiters st' = rateLimiters st"
    "rateLimitEntry st' = rateLimitEntry st"
  using assms
  by (auto simp: logRateLimitViolation_def logSecurityEvent_keeps split: sum.splits)

subsection \<open>Selection of the enforced configuration\<close>













subsection \<open>Block status\<close>

text \<open>
  Without a Redis client the block check counts rows of the security log by a JSON path.
  Rows whose \<open>details\<close> are JSON text, as every writer of the repository stores them,
  are never counted, so on such a log the fallback never reports a block.
\<close>

lemma recentViolations_text_rows:
  "\<forall>r\<in>set tbl. \<forall>d. log_details r \<noteq> Some (JsonObject d) \<Longrightarrow>
   recentViolations context since tbl = 0"
  by (induction tbl) (auto simp: recentViolations_def split: option.splits stored_json.splits)

lemma checkBlockStatus_fallback_text_rows:
  assumes "redis st = None"
    and "\<forall>r\<in>set (securityLog st). \<forall>d. log_details r \<noteq> Some (JsonObject d)"
  shows "checkBlockStatus env context config st = NotBlocked"
  using assms recentViolations_text_rows [of "securityLog st"]
  by (simp add: checkBlockStatus_def split: option.split)

text \<open>The read of an active ledger entry.\<close>

lemma checkBlockStatus_active:
  assumes "blockDurationMs config = Some d" "d \<noteq> 0"
    and "redis st = Some kv" "\<not> redis_get_throws env"
    and "kv (blockKey context) = Some e" "rvalue e = RNumber b"
    and "now env < expireAt e" "now env < b" "0 \<le> now env"
  shows "checkBlockStatus env context config st = Blocked b"
  using assms by (auto simp: checkBlockStatus_def redis_get_def)

text \<open>
  Claim C10. The block-status check fails open. When the enforced configuration has no
  (non-zero) \<open>blockDurationMs\<close>, \<open>checkBlockStatus\<close> answers not-blocked whatever the
  ledger holds for the identifier; when the ledger lookup itself throws (the Redis read, or
  the count query of the fallback), the identifier is likewise not blocked. In both cases
  a request that is not bypassed goes on to the counter check.
\<close>

theorem block_status_fails_open:
  assumes "\<not> truthy_num (blockDurationMs config)
           \<or> (redis st \<noteq> None \<and> redis_get_throws env)
           \<or> (redis st = None \<and> count_throws env)"
  shows "checkBlockStatus env context config st = NotBlocked
         \<and> (\<forall>headersList configKey customConfig.
               request_headers env = Some headersList
               \<and> \<not> strict_eq (headersList EMERGENCY_BYPASS_HEADER) (EMERGENCY_BYPASS_TOKEN env)
               \<and> \<not> isWhitelisted env (ip context)
               \<and> enforcedConfig customConfig configKey (userRole context) = Declared config
               \<longrightarrow> checkRateLimit_try env context configKey customConfig st
                     = counterCheck env context config st)"
proof -
  have nb: "checkBlockStatus env context config st = NotBlocked"
    using assms
    by (auto simp: checkBlockStatus_def truthy_num_def redis_get_def split: option.splits)
  show ?thesis
    using nb by (auto simp: checkRateLimit_try_def)
qed

text \<open>
  On the store with an active block: a throwing ledger read and a configuration without
  block duration both give not-blocked, where the working lookup reports the block.
\<close>

theorem block_status_fails_open_witness:
  "checkBlockStatus (example_env\<lparr>redis_get_throws := True\<rparr>) example_context auth_login
      blocked_store = NotBlocked
   \<and> checkBlockStatus example_env example_context auth_login blocked_store = Blocked 2800000
   \<and> checkBlockStatus example_env example_context
        (auth_login\<lparr>blockDurationMs := None\<rparr>) blocked_store = NotBlocked"
  using block_status_fails_open [of auth_login blocked_store
          "example_env\<lparr>redis_get_throws := True\<rparr>" example_context]
        block_status_fails_open [of "auth_login\<lparr>blockDurationMs := None\<rparr>" blocked_store
          example_env example_context]
  by (simp add: truthy_num_def blocked_store_def example_store_def example_env_def
        checkBlockStatus_def redis_get_def auth_login_def mkConfig_def)

subsection \<open>Emergency bypass\<close>

text \<open>
  Claim C5, as the code has it. A request whose bypass header equals the configured
  token gets the unlimited success result (\<open>limit\<close> and \<open>remaining\<close> infinite, \<open>reset\<close>
  sixty seconds ahead) with no marker on it, and the store is left as it was: no event
  is emitted and no counter is touched.
\<close>

theorem emergency_bypass_unlimited:
  assumes "request_headers env = Some headersList"
    and "headersList EMERGENCY_BYPASS_HEADER = Some token"
    and "EMERGENCY_BYPASS_TOKEN env = Some token"
  shows "checkRateLimit env context configKey customConfig st =
           (\<lparr>success = True, limit = Infinity, remaining = Infinity, reset = now env + 60000,
             blocked = None, blockUntil = None, retryAfter = None, error = None\<rparr>, st)"
  using assms
  by (simp add: checkRateLimit_def checkRateLimit_try_def strict_eq_def unlimited_def)

text \<open>The bypass wins even over an active block, and the store stays as it was.\<close>

theorem emergency_bypass_unlimited_witness:
  "checkRateLimit bypass_env example_context ''auth_login'' None blocked_store =
     (\<lparr>success = True, limit = Infinity, remaining = Infinity, reset = 1060000,
       blocked = None, blockUntil = None, retryAfter = None, error = None\<rparr>, blocked_store)"
  using emergency_bypass_unlimited [of bypass_env "[''x-emergency-bypass'' \<mapsto> ''secret'']"
          "''secret''" example_context "''auth_login''" None blocked_store]
  by (simp add: bypass_env_def example_env_def EMERGENCY_BYPASS_HEADER_def)

text \<open>The bypassed request carries no \<open>emergency_bypass\<close> marker and logs nothing.\<close>

theorem emergency_bypass_unmarked_counterexample:
  "error (fst (checkRateLimit bypass_env example_context ''auth_login'' None example_store))
     \<noteq> Some ''emergency_bypass''
   \<and> securityLog (snd (checkRateLimit bypass_env example_context ''auth_login'' None
        example_store)) = []"
  by (simp add: checkRateLimit_def checkRateLimit_try_def strict_eq_def unlimited_def
        bypass_env_def example_env_def EMERGENCY_BYPASS_HEADER_def example_store_def)

subsection \<open>Event emission\<close>

text \<open>
  Whether \<open>securityLog.create\<close> throws is never seen by the decision: the result of each
  function is the same with the flag set either way.
\<close>

lemma redis_get_sink [simp]:
  "redis_get (env\<lparr>securityLog_create_throws := b\<rparr>) = redis_get env"
  by (rule ext, rule ext) (simp add: redis_get_def split: option.split)

lemma checkBlockStatus_sink [simp]:
  "checkBlockStatus (env\<lparr>securityLog_create_throws := b\<rparr>) context config st
     = checkBlockStatus env context config st"
  by (simp add: checkBlockStatus_def split: option.split sum.split redis_value.split)







subsection \<open>An active block overrides the counter\<close>

lemma ceil_div_pos: "0 < x \<Longrightarrow> 0 < ceil_div x 1000"
  unfolding ceil_div_def by linarith

lemma active_block_step:
  assumes "request_headers env = Some headersList"
    and "\<not> strict_eq (headersList EMERGENCY_BYPASS_HEADER) (EMERGENCY_BYPASS_TOKEN env)"
    and "\<not> isWhitelisted env (ip context)"
    and "enforcedConfig customConfig configKey (userRole context) = Declared config"
    and "rules config = rule # rest"
    and "blockDurationMs config = Some d" "d \<noteq> 0"
    and "redis st = Some kv" "\<not> redis_get_throws env"
    and "kv (blockKey context) = Some e" "rvalue e = RNumber b"
    and "now env < expireAt e" "now env < b" "0 \<le> now env"
    and "b \<le> 8640000000000000"
  shows "\<exists>st'. checkRateLimit env context configKey customConfig st =
           (\<lparr>success = False, limit = Num (requests rule), remaining = Num 0, reset = b,
             blocked = Some True, blockUntil = Some b,
             retryAfter = Some (ceil_div (b - now env) 1000), error = None\<rparr>, st')
         \<and> redis st' = redis st \<and> rateLimiters st' = rateLimiters st
         \<and> rateLimitEntry st' = rateLimitEntry st"
proof -
  have blocked: "checkBlockStatus env context config st = Blocked b"
    by (rule checkBlockStatus_active [OF assms(6-14)])
  have "- 8640000000000000 \<le> b" using assms(13,14) by simp
  from logRateLimitViolation_date [OF this assms(15)] obtain st' where
    l: "logRateLimitViolation env context config ''blocked'' (Some b) st = Inr st'"
    by blast
  have "checkRateLimit env context configKey customConfig st =
           (\<lparr>success = False, limit = Num (requests rule), remaining = Num 0, reset = b,
             blocked = Some True, blockUntil = Some b,
             retryAfter = Some (ceil_div (b - now env) 1000), error = None\<rparr>, st')"
    using assms(1-5) blocked l by (simp add: checkRateLimit_def checkRateLimit_try_def)
  then show ?thesis
    using logRateLimitViolation_keeps [OF l] by blast
qed


text \<open>
  Claim C3, as the code has it. Take an identifier whose ledger entry holds a block that
  is still active (\<open>blockUntil > now\<close>, an instant a \<open>Date\<close> can hold), under a
  configuration with a block duration. Then every call of a run of calls that are not
  bypassed, that are made before \<open>blockUntil\<close> and whose ledger read succeeds, is refused
  with \<open>blocked = true\<close>, \<open>remaining = 0\<close> and
  \<open>retryAfter = ceil((blockUntil - now) / 1000) > 0\<close>. The counter is not consulted:
  the result is the same whatever the counter table and the limiter hold, and the run
  leaves the counter table, the limiter cache and the ledger as they were.
\<close>

theorem active_block_overrides_counter:
  assumes "enforcedConfig customConfig configKey (userRole context) = Declared config"
    and "rules config = rule # rest"
    and "blockDurationMs config = Some d" "d \<noteq> 0"
    and "redis st = Some kv" "kv (blockKey context) = Some e" "rvalue e = RNumber b"
    and "b \<le> 8640000000000000"
    and "\<forall>env\<in>set envs.
           (\<exists>headersList. request_headers env = Some headersList
              \<and> \<not> strict_eq (headersList EMERGENCY_BYPASS_HEADER) (EMERGENCY_BYPASS_TOKEN env))
           \<and> \<not> isWhitelisted env (ip context)
           \<and> \<not> redis_get_throws env
           \<and> 0 \<le> now env \<and> now env < b \<and> now env < expireAt e"
  shows "fst (runCheck envs context configKey customConfig st) =
           map (\<lambda>env. \<lparr>success = False, limit = Num (requests rule), remaining = Num 0,
                        reset = b, blocked = Some True, blockUntil = Some b,
                        retryAfter = Some (ceil_div (b - now env) 1000), error = None\<rparr>) envs
         \<and> (\<forall>env\<in>set envs. 0 < ceil_div (b - now env) 1000)
         \<and> redis (snd (runCheck envs context configKey customConfig st)) = redis st
         \<and> rateLimiters (snd (runCheck envs context configKey customConfig st)) = rateLimiters st
         \<and> rateLimitEntry (snd (runCheck envs context configKey customConfig st))
             = rateLimitEntry st"
  using assms(5,9)
proof (induction envs arbitrary: st)
  case Nil
  then show ?case by simp
next
  case (Cons env envs)
  from Cons.prems(2) obtain headersList where
    h: "request_headers env = Some headersList"
       "\<not> strict_eq (headersList EMERGENCY_BYPASS_HEADER) (EMERGENCY_BYPASS_TOKEN env)"
       "\<not> isWhitelisted env (ip context)" "\<not> redis_get_throws env"
       "0 \<le> now env" "now env < b" "now env < expireAt e"
    by auto
  from active_block_step [OF h(1-3) assms(1-4) Cons.prems(1) h(4) assms(6,7) h(7,6,5)
      assms(8)]
  obtain st' where step: "checkRateLimit env context configKey customConfig st =
           (\<lparr>success = False, limit = Num (requests rule), remaining = Num 0, reset = b,
             blocked = Some True, blockUntil = Some b,
             retryAfter = Some (ceil_div (b - now env) 1000), error = None\<rparr>, st')"
    and keep': "redis st' = redis st" "rateLimiters st' = rateLimiters st"
      "rateLimitEntry st' = rateLimitEntry st"
    by blast
  have keep: "redis st' = Some kv" "rateLimiters st' = rateLimiters st"
      "rateLimitEntry st' = rateLimitEntry st"
    using Cons.prems(1) keep' by simp_all
  have rest: "\<forall>env\<in>set envs.
           (\<exists>headersList. request_headers env = Some headersList
              \<and> \<not> strict_eq (headersList EMERGENCY_BYPASS_HEADER) (EMERGENCY_BYPASS_TOKEN env))
           \<and> \<not> isWhitelisted env (ip context)
           \<and> \<not> redis_get_throws env
           \<and> 0 \<le> now env \<and> now env < b \<and> now env < expireAt e"
    using Cons.prems(2) by simp
  note IH = Cons.IH [OF keep(1) rest]
  have pos: "0 < ceil_div (b - now env) 1000"
    using h(6) by (simp add: ceil_div_pos)
  show ?case
    using IH pos keep Cons.prems(1) by (simp add: step case_prod_beta)
qed


text \<open>
  Two requests, a minute apart, of the blocked client on the login configuration, with
  no attempt on record: both are refused as blocked, 1800 and 1740 seconds before the
  block ends.
\<close>

theorem active_block_overrides_counter_witness:
  "fst (runCheck [example_env, example_env\<lparr>now := 1060000\<rparr>] example_context ''auth_login''
          None blocked_store) =
     [\<lparr>success = False, limit = Num 5, remaining = Num 0, reset = 2800000,
       blocked = Some True, blockUntil = Some 2800000, retryAfter = Some 1800, error = None\<rparr>,
      \<lparr>success = False, limit = Num 5, remaining = Num 0, reset = 2800000,
       blocked = Some True, blockUntil = Some 2800000, retryAfter = Some 1740, error = None\<rparr>]
   \<and> rateLimitEntry (snd (runCheck [example_env, example_env\<lparr>now := 1060000\<rparr>]
          example_context ''auth_login'' None blocked_store)) = []"
proof -
  have 1: "enforcedConfig None ''auth_login'' (userRole example_context) = Declared auth_login"
    by (simp add: enforcedConfig_def property_read_def OPERATION_RATE_LIMITS_def
          objectPrototypeFunctions_def getRateLimitConfig_def RATE_LIMIT_CONFIGS_def)
  have 2: "rules auth_login = \<lparr>requests = 5, window = ''15 m'', windowMs = 900000\<rparr> # []"
    by (simp add: auth_login_def mkConfig_def)
  have 3: "blockDurationMs auth_login = Some 1800000"
    by (simp add: auth_login_def mkConfig_def)
  have 4: "(1800000::int) \<noteq> 0" by simp
  have 5: "redis blocked_store = Some [blockKey example_context \<mapsto>
             \<lparr>rvalue = RNumber 2800000, expireAt = 2800000\<rparr>]"
    by (simp add: blocked_store_def)
  have 6: "[blockKey example_context \<mapsto> \<lparr>rvalue = RNumber 2800000, expireAt = 2800000\<rparr>]
             (blockKey example_context) = Some \<lparr>rvalue = RNumber 2800000, expireAt = 2800000\<rparr>"
    by simp
  have 7: "rvalue \<lparr>rvalue = RNumber 2800000, expireAt = 2800000\<rparr> = RNumber 2800000"
    by simp
  have 8: "(2800000::int) \<le> 8640000000000000" by simp
  have 9: "\<forall>env\<in>set [example_env, example_env\<lparr>now := 1060000\<rparr>].
           (\<exists>headersList. request_headers env = Some headersList
              \<and> \<not> strict_eq (headersList EMERGENCY_BYPASS_HEADER) (EMERGENCY_BYPASS_TOKEN env))
           \<and> \<not> isWhitelisted env (ip example_context)
           \<and> \<not> redis_get_throws env
           \<and> 0 \<le> now env \<and> now env < 2800000
           \<and> now env < expireAt \<lparr>rvalue = RNumber 2800000, expireAt = 2800000\<rparr>"
    by (simp add: example_env_def strict_eq_def isWhitelisted_def)
  show ?thesis
    using active_block_overrides_counter [OF 1 2 3 4 5 6 7 8 9]
    by (simp add: ceil_div_def example_env_def blocked_store_def example_store_def)
qed

text \<open>
  An active block does not refuse a request whose ledger read throws: the block check
  fails open and the limiter admits the request. Nor does a block whose \<open>blockUntil\<close>
  no \<open>Date\<close> holds: rendering it for the event throws, and the call fails open.
\<close>

theorem active_block_counterexample:
  "checkBlockStatus allowing_env example_context auth_login blocked_store = Blocked 2800000
   \<and> fst (checkRateLimit (allowing_env\<lparr>redis_get_throws := True\<rparr>) example_context
          ''auth_login'' None blocked_store) =
       \<lparr>success = True, limit = Num 5, remaining = Num 4, reset = 1900000,
        blocked = None, blockUntil = None, retryAfter = None, error = None\<rparr>
   \<and> checkBlockStatus example_env example_context auth_login far_blocked_store
       = Blocked 9000000000000000
   \<and> fst (checkRateLimit example_env example_context ''auth_login'' None far_blocked_store) =
       \<lparr>success = True, limit = Num 1000, remaining = Num 999, reset = 1060000,
        blocked = None, blockUntil = None, retryAfter = None,
        error = Some ''Rate limiting temporarily unavailable''\<rparr>"
proof -
  have cfg: "enforcedConfig None ''auth_login'' None = Declared auth_login"
    by (simp add: enforcedConfig_def property_read_def OPERATION_RATE_LIMITS_def
          objectPrototypeFunctions_def getRateLimitConfig_def RATE_LIMIT_CONFIGS_def)
  have 1: "checkBlockStatus allowing_env example_context auth_login blocked_store
      = Blocked 2800000"
    by (simp add: checkBlockStatus_def redis_get_def blocked_store_def example_store_def
          allowing_env_def example_env_def auth_login_def mkConfig_def)
  have 2: "fst (checkRateLimit (allowing_env\<lparr>redis_get_throws := True\<rparr>) example_context
          ''auth_login'' None blocked_store) =
       \<lparr>success = True, limit = Num 5, remaining = Num 4, reset = 1900000,
        blocked = None, blockUntil = None, retryAfter = None, error = None\<rparr>"
    by (simp add: checkRateLimit_def checkRateLimit_try_def cfg counterCheck_def
          checkBlockStatus_def redis_get_def getRateLimiter_def
          blocked_store_def example_store_def allowing_env_def example_env_def
          example_context_def strict_eq_def isWhitelisted_def auth_login_def mkConfig_def
          Let_def)
  have 3: "checkBlockStatus example_env example_context auth_login far_blocked_store
       = Blocked 9000000000000000"
    by (simp add: checkBlockStatus_def redis_get_def far_blocked_store_def example_store_def
          example_env_def auth_login_def mkConfig_def)
  have 4: "fst (checkRateLimit example_env example_context ''auth_login'' None
        far_blocked_store) =
       \<lparr>success = True, limit = Num 1000, remaining = Num 999, reset = 1060000,
        blocked = None, blockUntil = None, retryAfter = None,
        error = Some ''Rate limiting temporarily unavailable''\<rparr>"
    using 3
    by (simp add: checkRateLimit_def checkRateLimit_try_def cfg failOpen_def
          logRateLimitViolation_def violationDetails_def toISOString_def
          example_env_def example_context_def strict_eq_def isWhitelisted_def)
  show ?thesis using 1 2 3 4 by simp
qed

subsection \<open>Storage failures\<close>

lemma getRateLimiter_Some:
  assumes "redis st = Some kv" "rules config = rule # rest"
  shows "\<exists>key r st1. getRateLimiter config st = (Inr (Some (key, r)), st1)"
  using assms by (simp add: getRateLimiter_def Let_def split: option.split)

text \<open>
  Claim C2, as the code has it. \<open>checkRateLimit\<close> never lets an error escape: whatever
  is thrown inside its \<open>try\<close> is answered with the fail-open result (\<open>success\<close>, limit
  1000, remaining 999, \<open>error = "Rate limiting temporarily unavailable"\<close>). For a request
  that is not bypassed: when there is a Redis client and the fast store fails (the ledger
  read and the limiter throw), that result is returned and an event carrying the error is
  handed to the event sink, the database fallback not being tried; when there is no Redis
  client and the database fails, the result is the fallback's own fail-open record
  (\<open>success\<close>, \<open>error = "Database rate limiting error"\<close>) and no event is emitted.
\<close>

theorem storage_failure_fails_open:
  assumes "request_headers env = Some headersList"
    and "\<not> strict_eq (headersList EMERGENCY_BYPASS_HEADER) (EMERGENCY_BYPASS_TOKEN env)"
    and "\<not> isWhitelisted env (ip context)"
    and "enforcedConfig customConfig configKey (userRole context) = Declared config"
    and "rules config = rule # rest"
  shows "(redis st = None \<and> count_throws env \<and> findFirst_throws env \<longrightarrow>
            checkRateLimit env context configKey customConfig st =
              (\<lparr>success = True, limit = Num (requests rule),
                remaining = Num (requests rule - 1), reset = now env + windowMs rule,
                blocked = None, blockUntil = None, retryAfter = None,
                error = Some ''Database rate limiting error''\<rparr>, st))
       \<and> (redis st \<noteq> None \<and> redis_get_throws env
            \<and> (\<forall>key r i. limiter_limit env key r i = None) \<longrightarrow>
            checkRateLimit env context configKey customConfig st =
              (\<lparr>success = True, limit = Num 1000, remaining = Num 999,
                reset = now env + 60000,
                blocked = None, blockUntil = None, retryAfter = None,
                error = Some ''Rate limiting temporarily unavailable''\<rparr>,
               logSecurityEvent env
                 \<lparr>ev_userId = userId context,
                  ev_action = RATE_LIMIT_EXCEEDED,
                  ev_details = Some
                    [(''endpoint'', JString (endpoint context)),
                     (''error'', JString (message LimiterError)),
                     (''ip'', JString (ip context))],
                  ev_ip = Some (ip context),
                  ev_userAgent = Some (userAgent context),
                  ev_success = False\<rparr> (snd (getRateLimiter config st))))
       \<and> (\<forall>e st'. checkRateLimit_try env context configKey customConfig st = (Inl e, st')
            \<longrightarrow> fst (checkRateLimit env context configKey customConfig st) =
              \<lparr>success = True, limit = Num 1000, remaining = Num 999,
               reset = now env + 60000,
               blocked = None, blockUntil = None, retryAfter = None,
               error = Some ''Rate limiting temporarily unavailable''\<rparr>)"
proof (intro conjI impI allI)
  assume a: "redis st = None \<and> count_throws env \<and> findFirst_throws env"
  then have nb: "checkBlockStatus env context config st = NotBlocked"
    by (simp add: checkBlockStatus_def split: option.split)
  show "checkRateLimit env context configKey customConfig st =
              (\<lparr>success = True, limit = Num (requests rule),
                remaining = Num (requests rule - 1), reset = now env + windowMs rule,
                blocked = None, blockUntil = None, retryAfter = None,
                error = Some ''Database rate limiting error''\<rparr>, st)"
    using assms a nb
    by (simp add: checkRateLimit_def checkRateLimit_try_def counterCheck_def
          checkRateLimitDatabase_def databaseFailOpen_def)
next
  assume a: "redis st \<noteq> None \<and> redis_get_throws env
            \<and> (\<forall>key r i. limiter_limit env key r i = None)"
  then obtain kv where kv: "redis st = Some kv" by auto
  from a kv have nb: "checkBlockStatus env context config st = NotBlocked"
    by (simp add: checkBlockStatus_def redis_get_def split: option.split)
  from getRateLimiter_Some [OF kv assms(5)] obtain key r st1
    where g: "getRateLimiter config st = (Inr (Some (key, r)), st1)" by blast
  show "checkRateLimit env context configKey customConfig st =
              (\<lparr>success = True, limit = Num 1000, remaining = Num 999,
                reset = now env + 60000,
                blocked = None, blockUntil = None, retryAfter = None,
                error = Some ''Rate limiting temporarily unavailable''\<rparr>,
               logSecurityEvent env
                 \<lparr>ev_userId = userId context,
                  ev_action = RATE_LIMIT_EXCEEDED,
                  ev_details = Some
                    [(''endpoint'', JString (endpoint context)),
                     (''error'', JString (message LimiterError)),
                     (''ip'', JString (ip context))],
                  ev_ip = Some (ip context),
                  ev_userAgent = Some (userAgent context),
                  ev_success = False\<rparr> (snd (getRateLimiter config st)))"
    using assms a kv nb g
    by (simp add: checkRateLimit_def checkRateLimit_try_def counterCheck_def failOpen_def)
next
  fix e st'
  assume "checkRateLimit_try env context configKey customConfig st = (Inl e, st')"
  then show "fst (checkRateLimit env context configKey customConfig st) =
              \<lparr>success = True, limit = Num 1000, remaining = Num 999,
               reset = now env + 60000,
               blocked = None, blockUntil = None, retryAfter = None,
               error = Some ''Rate limiting temporarily unavailable''\<rparr>"
    by (simp add: checkRateLimit_def failOpen_def)
qed

text \<open>The total outage, without and with a Redis client.\<close>

theorem storage_failure_fails_open_witness:
  "checkRateLimit outage_env example_context ''auth_login'' None example_store =
     (\<lparr>success = True, limit = Num 5, remaining = Num 4, reset = 1900000,
       blocked = None, blockUntil = None, retryAfter = None,
       error = Some ''Database rate limiting error''\<rparr>, example_store)
   \<and> fst (checkRateLimit outage_env example_context ''auth_login'' None redis_store) =
     \<lparr>success = True, limit = Num 1000, remaining = Num 999, reset = 1060000,
      blocked = None, blockUntil = None, retryAfter = None,
      error = Some ''Rate limiting temporarily unavailable''\<rparr>"
proof -
  have 1: "request_headers outage_env = Some Map.empty"
    by (simp add: outage_env_def example_env_def)
  have 2: "\<not> strict_eq (Map.empty EMERGENCY_BYPASS_HEADER) (EMERGENCY_BYPASS_TOKEN outage_env)"
    by (simp add: strict_eq_def)
  have 3: "\<not> isWhitelisted outage_env (ip example_context)"
    by (simp add: isWhitelisted_def outage_env_def example_env_def)
  have 4: "enforcedConfig None ''auth_login'' (userRole example_context) = Declared auth_login"
    by (simp add: enforcedConfig_def property_read_def OPERATION_RATE_LIMITS_def
          objectPrototypeFunctions_def getRateLimitConfig_def RATE_LIMIT_CONFIGS_def)
  have 5: "rules auth_login = \<lparr>requests = 5, window = ''15 m'', windowMs = 900000\<rparr> # []"
    by (simp add: auth_login_def mkConfig_def)
  show ?thesis
    using storage_failure_fails_open [OF 1 2 3 4 5, of example_store]
          storage_failure_fails_open [OF 1 2 3 4 5, of redis_store]
    by (simp add: outage_env_def example_env_def example_store_def redis_store_def)
qed

text \<open>
  In a total outage no result carries the marker \<open>storage_unavailable\<close>, and no event
  reaches the log.
\<close>

theorem storage_unavailable_marker_counterexample:
  "error (fst (checkRateLimit outage_env example_context ''auth_login'' None redis_store))
     = Some ''Rate limiting temporarily unavailable''
   \<and> securityLog (snd (checkRateLimit outage_env example_context ''auth_login'' None
        redis_store)) = []
   \<and> error (fst (checkRateLimit outage_env example_context ''auth_login'' None example_store))
     = Some ''Database rate limiting error''
   \<and> securityLog (snd (checkRateLimit outage_env example_context ''auth_login'' None
        example_store)) = []
   \<and> error (fst (checkRateLimit outage_env example_context ''auth_login'' None redis_store))
     \<noteq> Some ''storage_unavailable''
   \<and> error (fst (checkRateLimit outage_env example_context ''auth_login'' None example_store))
     \<noteq> Some ''storage_unavailable''"
  by (simp add: checkRateLimit_def checkRateLimit_try_def counterCheck_def failOpen_def
        checkRateLimitDatabase_def databaseFailOpen_def checkBlockStatus_def redis_get_def
        getRateLimiter_def logSecurityEvent_def truthy_str_def
        outage_env_def example_env_def example_store_def redis_store_def
        example_context_def strict_eq_def isWhitelisted_def enforcedConfig_def
        property_read_def objectPrototypeFunctions_def
        OPERATION_RATE_LIMITS_def getRateLimitConfig_def RATE_LIMIT_CONFIGS_def
        auth_login_def mkConfig_def EMERGENCY_BYPASS_HEADER_def Let_def)

subsection \<open>Writes to the block ledger\<close>

text \<open>
  The ledger is written in one place, \<open>handleRateLimitBlock\<close>, which the limiter branch
  reaches after a refused increment.
\<close>

lemma handleRateLimitBlock_redis:
  "redis (handleRateLimitBlock env context config st) = redis st
   \<or> (\<exists>kv d. redis st = Some kv \<and> blockDurationMs config = Some d \<and> d \<noteq> 0
         \<and> redis (handleRateLimitBlock env context config st) =
             Some (kv(blockKey context \<mapsto>
               \<lparr>rvalue = RNumber (now env + d),
                expireAt = now env + 1000 * ceil_div d 1000\<rparr>)))"
  by (simp add: handleRateLimitBlock_def Let_def logSecurityEvent_keeps
        split: option.split sum.split)

lemma handleRateLimitBlock_keeps:
  "rateLimiters (handleRateLimitBlock env context config st) = rateLimiters st"
  "rateLimitEntry (handleRateLimitBlock env context config st) = rateLimitEntry st"
  by (simp_all add: handleRateLimitBlock_def Let_def logSecurityEvent_keeps
        split: option.split sum.split)

lemma afterFindFirst_redis:
  "redis (snd (afterFindFirst env context config rule existing st)) = redis st"
  by (auto simp: afterFindFirst_def upsertAndAllow_def logRateLimitViolation_keeps Let_def
        split: option.split sum.split)

lemma checkRateLimitDatabase_redis:
  "redis (snd (checkRateLimitDatabase env context config st)) = redis st"
  by (simp add: checkRateLimitDatabase_def afterFindFirst_redis Let_def case_prod_beta
        split: list.split)

lemma getRateLimiter_redis:
  "redis (snd (getRateLimiter config st)) = redis st"
  by (simp add: getRateLimiter_def Let_def split: option.split list.split)

lemma counterCheck_redis:
  assumes "counterCheck env context config st = (r, st')" and "redis st' \<noteq> redis st"
  shows "(\<exists>result. r = Inr result \<and> \<not> success result \<and> blocked result = None)
         \<and> (\<exists>key rule resp.
               limiter_limit env key rule (createRateLimitIdentifier context) = Some resp
               \<and> \<not> resp_success resp)
         \<and> (\<exists>kv d. redis st = Some kv \<and> blockDurationMs config = Some d \<and> d \<noteq> 0
               \<and> redis st' = Some (kv(blockKey context \<mapsto>
                    \<lparr>rvalue = RNumber (now env + d),
                     expireAt = now env + 1000 * ceil_div d 1000\<rparr>)))"
proof (cases "redis st")
  case None
  then show ?thesis
    using assms checkRateLimitDatabase_redis [of env "context" config st]
    by (simp add: counterCheck_def)
next
  case (Some kv)
  obtain g st1 where g: "getRateLimiter config st = (g, st1)" by (cases "getRateLimiter config st")
  have r1: "redis st1 = redis st" using getRateLimiter_redis [of config st] g by simp
  show ?thesis
  proof (cases g)
    case (Inl e)
    then show ?thesis using assms Some g r1 by (simp add: counterCheck_def)
  next
    case (Inr lim)
    show ?thesis
    proof (cases lim)
      case None
      then show ?thesis using assms Some g r1 Inr by (simp add: counterCheck_def)
    next
      case (Some kr)
      obtain key rule where kr: "kr = (key, rule)" by (cases kr)
      show ?thesis
      proof (cases "limiter_limit env key rule (createRateLimitIdentifier context)")
        case None
        then show ?thesis
          using assms \<open>redis st = Some kv\<close> g r1 Inr Some kr by (simp add: counterCheck_def)
      next
        case (Some resp)
        show ?thesis
        proof (cases "resp_success resp")
          case True
          then show ?thesis
            using assms \<open>redis st = Some kv\<close> g r1 Inr \<open>lim = Some kr\<close> kr Some
            by (simp add: counterCheck_def)
        next
          case False
          obtain st2 where
            l: "logRateLimitViolation env context config ''exceeded'' None st1 = Inr st2"
            using logRateLimitViolation_None by blast
          have st': "st' = handleRateLimitBlock env context config st2"
            and r: "r = Inr \<lparr>success = False,
                                limit = Num (resp_limit resp),
                                remaining = Num (resp_remaining resp),
                                reset = resp_reset resp,
                                blocked = None, blockUntil = None,
                                retryAfter = Some (ceil_div (resp_reset resp - now env) 1000),
                                error = None\<rparr>"
            using assms(1) \<open>redis st = Some kv\<close> g Inr \<open>lim = Some kr\<close> kr Some False l
            by (simp_all add: counterCheck_def Let_def)
          have r2: "redis st2 = redis st" using r1 logRateLimitViolation_keeps(1) [OF l] by simp
          from handleRateLimitBlock_redis [of env "context" config st2] assms(2) st' r2
          have "\<exists>kv d. redis st = Some kv \<and> blockDurationMs config = Some d \<and> d \<noteq> 0
               \<and> redis st' = Some (kv(blockKey context \<mapsto>
                    \<lparr>rvalue = RNumber (now env + d),
                     expireAt = now env + 1000 * ceil_div d 1000\<rparr>))"
            by auto
          then show ?thesis using r Some False by auto
        qed
      qed
    qed
  qed
qed


lemma checkRateLimit_try_redis:
  assumes "checkRateLimit_try env context configKey customConfig st = (r, st1)"
    and "redis st1 \<noteq> redis st"
    and "enforcedConfig customConfig configKey (userRole context) = Declared config"
  shows "(\<exists>headersList. request_headers env = Some headersList
            \<and> \<not> strict_eq (headersList EMERGENCY_BYPASS_HEADER) (EMERGENCY_BYPASS_TOKEN env))
         \<and> \<not> isWhitelisted env (ip context)
         \<and> checkBlockStatus env context config st = NotBlocked
         \<and> counterCheck env context config st = (r, st1)"
  using assms
  by (auto simp: checkRateLimit_try_def Let_def logRateLimitViolation_keeps
        split: option.splits if_splits BlockStatus.splits list.splits sum.splits)

lemma checkRateLimit_redis:
  assumes "checkRateLimit env context configKey customConfig st = (result, st')"
    and "redis st' \<noteq> redis st"
    and "enforcedConfig customConfig configKey (userRole context) = Declared config"
  shows "checkRateLimit_try env context configKey customConfig st = (Inr result, st')"
proof -
  obtain r st1 where t: "checkRateLimit_try env context configKey customConfig st = (r, st1)"
    by (cases "checkRateLimit_try env context configKey customConfig st")
  have "redis st' = redis st1"
    using assms(1) t
    by (auto simp: checkRateLimit_def logSecurityEvent_keeps split: sum.splits)
  with assms(2) have changed: "redis st1 \<noteq> redis st" by simp
  from checkRateLimit_try_redis [OF t changed assms(3)]
  have "counterCheck env context config st = (r, st1)" by simp
  from counterCheck_redis [OF this changed] obtain result' where "r = Inr result'" by blast
  with assms(1) t show ?thesis by (simp add: checkRateLimit_def)
qed

text \<open>
  Claim C7, as the code has it. A call of \<open>checkRateLimit\<close> writes a block entry only
  when the enforced configuration has a block duration and a genuine violation occurred:
  the request was not bypassed, the block check let it through, the limiter refused the
  increment, and the result is a refusal that is not marked \<open>blocked\<close>; the entry written
  is \<open>now + blockDurationMs\<close> under the identifier's block key. While the identifier's
  entry is an active block and the ledger read succeeds, no call changes the ledger, so
  the block is not extended; a new one is written only by a violation that the block
  check let through.
\<close>

theorem block_written_only_on_violation:
  assumes "checkRateLimit env context configKey customConfig st = (result, st')"
    and "enforcedConfig customConfig configKey (userRole context) = Declared config"
  shows "(redis st' \<noteq> redis st \<longrightarrow>
            truthy_num (blockDurationMs config)
            \<and> (\<exists>headersList. request_headers env = Some headersList
                 \<and> \<not> strict_eq (headersList EMERGENCY_BYPASS_HEADER)
                       (EMERGENCY_BYPASS_TOKEN env))
            \<and> \<not> isWhitelisted env (ip context)
            \<and> checkBlockStatus env context config st = NotBlocked
            \<and> \<not> success result \<and> blocked result = None
            \<and> (\<exists>key rule resp.
                  limiter_limit env key rule (createRateLimitIdentifier context) = Some resp
                  \<and> \<not> resp_success resp)
            \<and> (\<exists>kv d. redis st = Some kv \<and> blockDurationMs config = Some d
                  \<and> redis st' = Some (kv(blockKey context \<mapsto>
                       \<lparr>rvalue = RNumber (now env + d),
                        expireAt = now env + 1000 * ceil_div d 1000\<rparr>))))
       \<and> (\<forall>kv e b. redis st = Some kv \<and> \<not> redis_get_throws env
              \<and> kv (blockKey context) = Some e \<and> rvalue e = RNumber b
              \<and> now env < b \<and> now env < expireAt e \<and> 0 \<le> now env
            \<longrightarrow> redis st' = redis st)"
proof -
  have main: "truthy_num (blockDurationMs config)
            \<and> (\<exists>headersList. request_headers env = Some headersList
                 \<and> \<not> strict_eq (headersList EMERGENCY_BYPASS_HEADER)
                       (EMERGENCY_BYPASS_TOKEN env))
            \<and> \<not> isWhitelisted env (ip context)
            \<and> checkBlockStatus env context config st = NotBlocked
            \<and> \<not> success result \<and> blocked result = None
            \<and> (\<exists>key rule resp.
                  limiter_limit env key rule (createRateLimitIdentifier context) = Some resp
                  \<and> \<not> resp_success resp)
            \<and> (\<exists>kv d. redis st = Some kv \<and> blockDurationMs config = Some d
                  \<and> redis st' = Some (kv(blockKey context \<mapsto>
                       \<lparr>rvalue = RNumber (now env + d),
                        expireAt = now env + 1000 * ceil_div d 1000\<rparr>)))"
    if changed: "redis st' \<noteq> redis st"
  proof -
    from checkRateLimit_redis [OF assms(1) changed assms(2)]
    have t: "checkRateLimit_try env context configKey customConfig st = (Inr result, st')" .
    from checkRateLimit_try_redis [OF t changed assms(2)]
    have b: "\<exists>headersList. request_headers env = Some headersList
            \<and> \<not> strict_eq (headersList EMERGENCY_BYPASS_HEADER) (EMERGENCY_BYPASS_TOKEN env)"
      "\<not> isWhitelisted env (ip context)"
      "checkBlockStatus env context config st = NotBlocked"
      and c: "counterCheck env context config st = (Inr result, st')"
      by auto
    from counterCheck_redis [OF c changed]
    have v: "\<not> success result \<and> blocked result = None"
      "\<exists>key rule resp.
         limiter_limit env key rule (createRateLimitIdentifier context) = Some resp
         \<and> \<not> resp_success resp"
      "\<exists>kv d. redis st = Some kv \<and> blockDurationMs config = Some d \<and> d \<noteq> 0
         \<and> redis st' = Some (kv(blockKey context \<mapsto>
              \<lparr>rvalue = RNumber (now env + d),
               expireAt = now env + 1000 * ceil_div d 1000\<rparr>))"
      by auto
    from v(3) have tr: "truthy_num (blockDurationMs config)"
      by (auto simp: truthy_num_def)
    from v(3) have w: "\<exists>kv d. redis st = Some kv \<and> blockDurationMs config = Some d
         \<and> redis st' = Some (kv(blockKey context \<mapsto>
              \<lparr>rvalue = RNumber (now env + d),
               expireAt = now env + 1000 * ceil_div d 1000\<rparr>))"
      by blast
    show ?thesis using tr b v(1,2) w by blast
  qed
  have keep: "redis st' = redis st"
    if a: "redis st = Some kv \<and> \<not> redis_get_throws env
              \<and> kv (blockKey context) = Some e \<and> rvalue e = RNumber b
              \<and> now env < b \<and> now env < expireAt e \<and> 0 \<le> now env" for kv e b
  proof (rule ccontr)
    assume changed: "redis st' \<noteq> redis st"
    from main [OF changed] obtain d where
      d: "blockDurationMs config = Some d" "d \<noteq> 0"
      and nb: "checkBlockStatus env context config st = NotBlocked"
      by (auto simp: truthy_num_def split: option.splits)
    from a have a': "redis st = Some kv" "\<not> redis_get_throws env"
      "kv (blockKey context) = Some e" "rvalue e = RNumber b"
      "now env < expireAt e" "now env < b" "0 \<le> now env"
      by simp_all
    have "checkBlockStatus env context config st = Blocked b"
      by (rule checkBlockStatus_active [OF d a'])
    with nb show False by simp
  qed
  show ?thesis using main keep by blast
qed


text \<open>
  A refused increment writes the block; a later refused request of the then blocked
  client leaves it as it is.
\<close>

theorem block_written_only_on_violation_witness:
  "redis (snd (checkRateLimit violation_env example_context ''auth_login'' None redis_store))
     \<noteq> redis redis_store
   \<and> \<not> success (fst (checkRateLimit violation_env example_context ''auth_login'' None
          redis_store))
   \<and> redis (snd (checkRateLimit violation_env example_context ''auth_login'' None redis_store))
     = redis blocked_store
   \<and> redis (snd (checkRateLimit (violation_env\<lparr>now := 1060000\<rparr>) example_context
          ''auth_login'' None blocked_store))
     = redis blocked_store"
proof -
  let ?c = "checkRateLimit violation_env example_context ''auth_login'' None redis_store"
  let ?r = "checkRateLimit (violation_env\<lparr>now := 1060000\<rparr>) example_context
              ''auth_login'' None blocked_store"
  let ?e = "\<lparr>rvalue = RNumber 2800000, expireAt = 2800000\<rparr>"
  have cfg: "enforcedConfig None ''auth_login'' (userRole example_context)
      = Declared auth_login"
    by (simp add: enforcedConfig_def property_read_def OPERATION_RATE_LIMITS_def
          objectPrototypeFunctions_def getRateLimitConfig_def RATE_LIMIT_CONFIGS_def)
  have c: "?c = (fst ?c, snd ?c)" and r: "?r = (fst ?r, snd ?r)" by simp_all
  have created: "redis (snd ?c) = redis blocked_store"
    by (simp add: checkRateLimit_def checkRateLimit_try_def cfg counterCheck_def
          checkBlockStatus_def redis_get_def getRateLimiter_def handleRateLimitBlock_def
          logRateLimitViolation_def violationDetails_def toISOString_def
          property_read_def ENDPOINT_SEVERITY_def objectPrototypeFunctions_def
          logSecurityEvent_keeps ceil_div_def
          violation_env_def example_env_def example_store_def redis_store_def
          blocked_store_def strict_eq_def isWhitelisted_def
          auth_login_def mkConfig_def EMERGENCY_BYPASS_HEADER_def Let_def)
  then have changed: "redis (snd ?c) \<noteq> redis redis_store"
    by (simp add: blocked_store_def redis_store_def)
  from block_written_only_on_violation [OF c cfg] changed
  have refused: "\<not> success (fst ?c)" by blast
  have active: "redis blocked_store = Some [blockKey example_context \<mapsto> ?e]
      \<and> \<not> redis_get_throws (violation_env\<lparr>now := 1060000\<rparr>)
      \<and> [blockKey example_context \<mapsto> ?e] (blockKey example_context) = Some ?e
      \<and> rvalue ?e = RNumber 2800000
      \<and> now (violation_env\<lparr>now := 1060000\<rparr>) < 2800000
      \<and> now (violation_env\<lparr>now := 1060000\<rparr>) < expireAt ?e
      \<and> 0 \<le> now (violation_env\<lparr>now := 1060000\<rparr>)"
    by (simp add: blocked_store_def violation_env_def example_env_def)
  from block_written_only_on_violation [OF r cfg] active
  have kept: "redis (snd ?r) = redis blocked_store" by blast
  show ?thesis using changed refused created kept by simp
qed

text \<open>
  A block that is active until 2800000 is extended to 2860000 by a refused request whose
  ledger read throws: the block check fails open, and the write of the new entry is
  unconditional.
\<close>

theorem block_extended_counterexample:
  "checkBlockStatus (violation_env\<lparr>now := 1060000\<rparr>) example_context auth_login
      blocked_store = Blocked 2800000
   \<and> redis (snd (checkRateLimit (violation_env\<lparr>now := 1060000, redis_get_throws := True\<rparr>)
        example_context ''auth_login'' None blocked_store)) =
       Some [blockKey example_context \<mapsto> \<lparr>rvalue = RNumber 2860000, expireAt = 2860000\<rparr>]"
proof -
  have cfg: "enforcedConfig None ''auth_login'' (userRole example_context)
      = Declared auth_login"
    by (simp add: enforcedConfig_def property_read_def OPERATION_RATE_LIMITS_def
          objectPrototypeFunctions_def getRateLimitConfig_def RATE_LIMIT_CONFIGS_def)
  have 1: "checkBlockStatus (violation_env\<lparr>now := 1060000\<rparr>) example_context auth_login
      blocked_store = Blocked 2800000"
    by (simp add: checkBlockStatus_def redis_get_def blocked_store_def example_store_def
          violation_env_def example_env_def auth_login_def mkConfig_def)
  have 2: "redis (snd (checkRateLimit
        (violation_env\<lparr>now := 1060000, redis_get_throws := True\<rparr>)
        example_context ''auth_login'' None blocked_store)) =
       Some [blockKey example_context \<mapsto> \<lparr>rvalue = RNumber 2860000, expireAt = 2860000\<rparr>]"
    by (simp add: checkRateLimit_def checkRateLimit_try_def cfg counterCheck_def
          checkBlockStatus_def redis_get_def getRateLimiter_def handleRateLimitBlock_def
          logRateLimitViolation_def violationDetails_def toISOString_def
          property_read_def ENDPOINT_SEVERITY_def objectPrototypeFunctions_def
          logSecurityEvent_keeps ceil_div_def
          violation_env_def example_env_def example_store_def
          blocked_store_def strict_eq_def isWhitelisted_def
          auth_login_def mkConfig_def EMERGENCY_BYPASS_HEADER_def Let_def)
  show ?thesis using 1 2 by simp
qed

subsection \<open>Configurations with several rules\<close>

text \<open>
  Only \<open>config.rules[0]\<close> is ever read: by \<open>getRateLimiter\<close>, by
  \<open>checkRateLimitDatabase\<close> and by the refusal of a blocked request.
\<close>

lemma first_rule_checkBlockStatus [simp]:
  "checkBlockStatus env context (config\<lparr>rules := rs\<rparr>) st = checkBlockStatus env context config st"
  by (simp add: checkBlockStatus_def)

lemma first_rule_violationDetails [simp]:
  "violationDetails context (config\<lparr>rules := rs\<rparr>) v b = violationDetails context config v b"
  by (simp add: violationDetails_def split: sum.split)

lemma first_rule_logRateLimitViolation [simp]:
  "logRateLimitViolation env context (config\<lparr>rules := rs\<rparr>) v b st
     = logRateLimitViolation env context config v b st"
  by (simp add: logRateLimitViolation_def)

lemma first_rule_handleRateLimitBlock [simp]:
  "handleRateLimitBlock env context (config\<lparr>rules := rs\<rparr>) st
     = handleRateLimitBlock env context config st"
  by (simp add: handleRateLimitBlock_def Let_def split: option.split)

lemma first_rule_afterFindFirst [simp]:
  "afterFindFirst env context (config\<lparr>rules := rs\<rparr>) rule existing st
     = afterFindFirst env context config rule existing st"
  by (simp add: afterFindFirst_def split: option.split)

lemma first_rule_checkRateLimitDatabase:
  "rules config = rule # rest \<Longrightarrow>
   checkRateLimitDatabase env context (config\<lparr>rules := [rule]\<rparr>) st
     = checkRateLimitDatabase env context config st"
  by (simp add: checkRateLimitDatabase_def)

lemma first_rule_getRateLimiter:
  "rules config = rule # rest \<Longrightarrow>
   getRateLimiter (config\<lparr>rules := [rule]\<rparr>) st = getRateLimiter config st"
  by (simp add: getRateLimiter_def Let_def split: option.split)

lemma first_rule_counterCheck:
  "rules config = rule # rest \<Longrightarrow>
   counterCheck env context (config\<lparr>rules := [rule]\<rparr>) st = counterCheck env context config st"
  by (simp add: counterCheck_def first_rule_checkRateLimitDatabase first_rule_getRateLimiter
        Let_def split: option.split prod.split sum.split)

lemma first_rule_checkRateLimit_try:
  "rules config = rule # rest \<Longrightarrow>
   checkRateLimit_try env context configKey (Some (config\<lparr>rules := [rule]\<rparr>)) st
     = checkRateLimit_try env context configKey (Some config) st"
  by (simp add: checkRateLimit_try_def enforcedConfig_def first_rule_counterCheck Let_def
        split: option.split BlockStatus.split sum.split)

lemma database_success_first_rule:
  assumes "rules config = rule # rest" "1 \<le> requests rule"
    and "checkRateLimitDatabase env context config st = (Inr result, st')"
    and "success result" "error result = None"
  shows "(case findFirst context (now env) (rateLimitEntry st) of
            Some e \<Rightarrow> attempts e | None \<Rightarrow> 0) + 1 \<le> requests rule"
  using assms
  by (auto simp: checkRateLimitDatabase_def afterFindFirst_def upsertAndAllow_def
        databaseFailOpen_def Let_def split: option.splits if_splits sum.splits)

text \<open>
  Claim C6, as the code has it. For every configuration, also one with more than one
  rule, only the first rule is evaluated: \<open>checkRateLimit\<close> behaves exactly as on the
  configuration reduced to its first rule, and on the database fallback a success that
  is not a fail-open is returned only if the attempt count after the increment does not
  exceed the first rule's \<open>requests\<close> (for \<open>requests \<ge> 1\<close>). Rules after the first are
  never read.
\<close>

theorem only_first_rule_enforced:
  assumes "rules config = rule # rest"
  shows "checkRateLimit env context configKey (Some config) st
           = checkRateLimit env context configKey (Some (config\<lparr>rules := [rule]\<rparr>)) st
         \<and> (\<forall>result st'.
               1 \<le> requests rule
               \<and> checkRateLimitDatabase env context config st = (Inr result, st')
               \<and> success result \<and> error result = None
               \<longrightarrow> (case findFirst context (now env) (rateLimitEntry st) of
                       Some e \<Rightarrow> attempts e | None \<Rightarrow> 0) + 1 \<le> requests rule)"
  using assms database_success_first_rule [OF assms]
  by (simp add: checkRateLimit_def first_rule_checkRateLimit_try)

text \<open>The two-rule configuration decides as its first rule alone.\<close>

theorem only_first_rule_enforced_witness:
  "checkRateLimit example_env example_context ''public'' (Some two_rule_config) counted_store
     = checkRateLimit example_env example_context ''public''
         (Some (two_rule_config\<lparr>rules := [\<lparr>requests = 5, window = ''1 m'',
            windowMs = 60000\<rparr>]\<rparr>)) counted_store
   \<and> (case findFirst example_context (now example_env) (rateLimitEntry counted_store) of
        Some e \<Rightarrow> attempts e | None \<Rightarrow> 0) + 1
      \<le> requests \<lparr>requests = 5, window = ''1 m'', windowMs = 60000\<rparr>"
proof -
  let ?d = "checkRateLimitDatabase example_env example_context two_rule_config counted_store"
  let ?R = "\<lparr>success = True, limit = Num 5, remaining = Num 1, reset = 1060000,
             blocked = None, blockUntil = None, retryAfter = None, error = None\<rparr>"
  have 1: "rules two_rule_config = \<lparr>requests = 5, window = ''1 m'', windowMs = 60000\<rparr>
             # [\<lparr>requests = 2, window = ''1 h'', windowMs = 3600000\<rparr>]"
    by (simp add: two_rule_config_def)
  have "fst ?d = Inr ?R"
    by (simp add: checkRateLimitDatabase_def afterFindFirst_def upsertAndAllow_def
          findFirst_def live_entry_def two_rule_config_def counted_store_def
          example_env_def example_store_def example_context_def Let_def)
  then have d: "?d = (Inr ?R, snd ?d)"
    by (metis prod.collapse)
  have p: "1 \<le> requests \<lparr>requests = 5, window = ''1 m'', windowMs = 60000\<rparr>
           \<and> ?d = (Inr ?R, snd ?d) \<and> success ?R \<and> error ?R = None"
    using d by simp
  from only_first_rule_enforced [OF 1, of example_env example_context "''public''" counted_store]
    p
  show ?thesis by blast
qed

text \<open>
  With the rules \<open>5 per minute\<close> and \<open>2 per hour\<close> and three attempts on record, the
  fourth request succeeds although it exceeds the second rule.
\<close>

theorem conjunctive_rules_counterexample:
  "success (fst (checkRateLimit example_env example_context ''public'' (Some two_rule_config)
      counted_store))
   \<and> error (fst (checkRateLimit example_env example_context ''public'' (Some two_rule_config)
      counted_store)) = None
   \<and> map attempts (rateLimitEntry (snd (checkRateLimit example_env example_context ''public''
      (Some two_rule_config) counted_store))) = [4]
   \<and> map requests (rules two_rule_config) = [5, 2]"
  by (simp add: checkRateLimit_def checkRateLimit_try_def counterCheck_def
        checkRateLimitDatabase_def afterFindFirst_def upsertAndAllow_def upsert_def
        findFirst_def live_entry_def checkBlockStatus_def
        two_rule_config_def counted_store_def example_env_def example_store_def
        example_context_def strict_eq_def isWhitelisted_def enforcedConfig_def
        EMERGENCY_BYPASS_HEADER_def Let_def)

subsection \<open>Sequential requests on the database fallback\<close>















subsection \<open>Concurrent requests on the database fallback\<close>

text \<open>
  \<open>checkRateLimitDatabase\<close> is its read followed by its write: two separate awaited
  database operations.
\<close>

lemma checkRateLimitDatabase_two_steps:
  "rules config = rule # rest \<Longrightarrow> \<not> findFirst_throws env \<Longrightarrow>
   checkRateLimitDatabase env context config st =
     (case afterFindFirst env context config rule
             (findFirst context (now env) (rateLimitEntry st)) st of
        (result, st') \<Rightarrow> (Inr result, st'))"
  by (simp add: checkRateLimitDatabase_def)

text \<open>
  Claim C4 asks that concurrent requests against one window lose no update, the
  fallback incrementing in one atomic conditional operation. The code reads, then writes:
  with the rule \<open>1 per minute\<close> and an empty table, two requests whose reads both
  resolve before either write both find no row, both create a row with \<open>attempts = 1\<close>
  and both succeed, where the same two requests one after the other give one success and
  one refusal.
\<close>

theorem concurrent_requests_lose_update:
  "(case racingRequests example_env example_env example_context one_per_minute
           \<lparr>requests = 1, window = ''1 m'', windowMs = 60000\<rparr> example_store of
      (result1, result2, st) \<Rightarrow>
        success result1 \<and> error result1 = None
        \<and> success result2 \<and> error result2 = None
        \<and> map attempts (rateLimitEntry st) = [1, 1])
   \<and> map (map_sum message success)
        (runDatabase [example_env, example_env] example_context one_per_minute example_store)
      = [Inr True, Inr False]"
  by (simp add: racingRequests_def checkRateLimitDatabase_def afterFindFirst_def
        upsertAndAllow_def upsert_def findFirst_def live_entry_def fresh_id_def
        logRateLimitViolation_def violationDetails_def property_read_def
        ENDPOINT_SEVERITY_def objectPrototypeFunctions_def
        logSecurityEvent_def truthy_str_def
        one_per_minute_def example_env_def example_store_def example_context_def Let_def)

end
